theory Spec2Isabelle
  imports Main "HOL-Library.Sublist"
begin

section \<open>Strings\<close>

text \<open>
  A Python \<open>str\<close> is modelled as a \<^typ>\<open>string\<close> holding its UTF-8 bytes. The program only
  concatenates strings, joins them, tests them for emptiness and looks for the ASCII
  patterns \<open>.docx\<close> and \<open>.pdf\<close>; all of that agrees on code points and on UTF-8 bytes.
  The Russian literals of the source are written out byte by byte.
\<close>

text \<open>\<open>sep.join(xs)\<close>\<close>

fun str_join :: "string \<Rightarrow> string list \<Rightarrow> string" where
  "str_join sep [] = []"
| "str_join sep [x] = x"
| "str_join sep (x # y # ys) = x @ sep @ str_join sep (y # ys)"

text \<open>\<open>s.endswith(suf)\<close>\<close>

definition str_endswith :: "string \<Rightarrow> string \<Rightarrow> bool" where
  "str_endswith s suf =
     (length suf \<le> length s \<and> drop (length s - length suf) s = suf)"

text \<open>
  \<open>s.replace(old, new)\<close> for a non-empty \<open>old\<close>: every non-overlapping occurrence, from
  the left. The program calls it with \<open>old = '.docx'\<close> only.
\<close>

function str_replace :: "string \<Rightarrow> string \<Rightarrow> string \<Rightarrow> string" where
  "str_replace old new [] = []"
| "str_replace old new (c # cs) =
     (if old \<noteq> [] \<and> take (length old) (c # cs) = old
      then new @ str_replace old new (drop (length old) (c # cs))
      else c # str_replace old new cs)"
  by pat_completeness auto
termination
  by (relation "measure (\<lambda>(old, new, s). length s)") auto

text \<open>\<open>d.get(key, default)\<close> on a key that may be missing.\<close>

definition dict_get :: "'a \<Rightarrow> 'a option \<Rightarrow> 'a" where
  "dict_get d v = (case v of None \<Rightarrow> d | Some x \<Rightarrow> x)"

section \<open>The input record\<close>

text \<open>
  The parsed JSON, typed as the program reads it: every key may be missing
  (\<open>None\<close>); \<open>description\<close> and \<open>skills\<close> are a string or a list of strings, which the
  source tells apart with \<open>isinstance(_, list)\<close>; the content of an additional section is a
  string or a list whose items are strings or key/value dictionaries. All leaf values are
  strings: JSON numbers, booleans and nulls in their place are outside this model.
\<close>

record personal =
  pi_name :: "string option"
  pi_email :: "string option"
  pi_phone :: "string option"
  pi_location :: "string option"
  pi_linkedin :: "string option"
  pi_github :: "string option"

datatype text_or_list = Str string | Lst "string list"

record exp_entry =
  exp_position :: "string option"
  exp_company :: "string option"
  exp_period :: "string option"
  exp_description :: "text_or_list option"

record edu_entry =
  edu_degree :: "string option"
  edu_school :: "string option"
  edu_period :: "string option"

datatype item = Item_dict "string option" "string option" | Item_str string

datatype content = Content_str string | Content_list "item list"

record section_entry =
  sec_title :: "string option"
  sec_content :: "content option"

record resume_data =
  personal_info :: "personal option"
  summary :: "string option"
  experience :: "exp_entry list option"
  education :: "edu_entry list option"
  skills :: "text_or_list option"
  additional_sections :: "section_entry list option"

text \<open>Python truthiness of \<open>d.get(key)\<close>: a missing key gives \<open>None\<close>, which is false, and so
  are the empty string and the empty list.\<close>

definition truthy_str :: "string option \<Rightarrow> bool" where
  "truthy_str v = (case v of None \<Rightarrow> False | Some s \<Rightarrow> s \<noteq> [])"

definition truthy_list :: "'a list option \<Rightarrow> bool" where
  "truthy_list v = (case v of None \<Rightarrow> False | Some xs \<Rightarrow> xs \<noteq> [])"

definition truthy_tl :: "text_or_list option \<Rightarrow> bool" where
  "truthy_tl v =
     (case v of None \<Rightarrow> False | Some (Str s) \<Rightarrow> s \<noteq> [] | Some (Lst xs) \<Rightarrow> xs \<noteq> [])"

text \<open>\<open>{}\<close>, the default of \<open>data.get('personal_info', {})\<close>.\<close>

definition empty_personal :: personal where
  "empty_personal =
     \<lparr>pi_name = None, pi_email = None, pi_phone = None, pi_location = None,
      pi_linkedin = None, pi_github = None\<rparr>"

section \<open>The document\<close>

text \<open>
  The document library is outside the repository. Its objects are modelled by what the
  program sets on them: a run has a text and the font properties \<open>set_run_font\<close> writes
  (\<open>font.name\<close> is the Latin slot, \<open>w:eastAsia\<close> the East-Asian one; lengths are in EMU,
  as the library stores them); a paragraph has a style, an alignment, three
  paragraph-format lengths and its runs; a document has the font of its \<open>Normal\<close> style
  and its paragraphs in order.
\<close>

record run =
  r_text :: string
  r_font_name :: "string option"
  r_east_asia :: "string option"
  r_size :: "nat option"
  r_bold :: "bool option"
  r_italic :: "bool option"
  r_color :: "(nat \<times> nat \<times> nat) option"

datatype style = Heading nat | List_Bullet

datatype alignment = LEFT

record docx_paragraph =
  p_style :: "style option"
  p_alignment :: "alignment option"
  p_left_indent :: "nat option"
  p_space_before :: "nat option"
  p_space_after :: "nat option"
  p_runs :: "run list"

record document =
  normal_font_name :: "string option"
  normal_font_size :: "nat option"
  body :: "docx_paragraph list"

text \<open>\<open>Pt(n)\<close> and \<open>Inches(indent * 0.25)\<close> in EMU (12700 to the point, 914400 to the inch).\<close>

definition Pt :: "nat \<Rightarrow> nat" where
  "Pt n = n * 12700"

definition quarter_inches :: "nat \<Rightarrow> nat" where
  "quarter_inches indent = indent * 228600"

text \<open>\<open>Document()\<close>: no paragraph yet.\<close>

definition Document :: document where
  "Document = \<lparr>normal_font_name = None, normal_font_size = None, body = []\<rparr>"

text \<open>\<open>paragraph.add_run(text)\<close>: a new run with no property set.\<close>

definition add_run :: "string \<Rightarrow> run" where
  "add_run t =
     \<lparr>r_text = t, r_font_name = None, r_east_asia = None, r_size = None,
      r_bold = None, r_italic = None, r_color = None\<rparr>"

text \<open>\<open>document.add_paragraph(text, style)\<close>: the library gives the new paragraph one run
  holding \<open>text\<close>, and no run at all when \<open>text\<close> is empty.\<close>

definition new_paragraph :: "string \<Rightarrow> style option \<Rightarrow> docx_paragraph" where
  "new_paragraph t st =
     \<lparr>p_style = st, p_alignment = None, p_left_indent = None, p_space_before = None,
      p_space_after = None, p_runs = (if t \<noteq> [] then [add_run t] else [])\<rparr>"

text \<open>Appending a finished paragraph to the document. The source changes a paragraph
  after the library has appended it; no other paragraph is appended in between, so the
  model builds the paragraph first.\<close>

definition append_paragraph :: "document \<Rightarrow> docx_paragraph \<Rightarrow> document" where
  "append_paragraph doc p = doc\<lparr>body := body doc @ [p]\<rparr>"

text \<open>\<open>doc.add_paragraph()\<close>, the blank line.\<close>

definition add_blank :: "document \<Rightarrow> document" where
  "add_blank doc = append_paragraph doc (new_paragraph [] None)"

section \<open>The helpers of the source\<close>

definition Calibri :: string where
  "Calibri = ''Calibri''"

definition set_run_font ::
  "run \<Rightarrow> string \<Rightarrow> nat \<Rightarrow> bool \<Rightarrow> bool \<Rightarrow> (nat \<times> nat \<times> nat) option \<Rightarrow> run" where
  "set_run_font r font_name font_size bold italic color =
     (let r = r\<lparr>r_font_name := Some font_name\<rparr>;
          r = r\<lparr>r_size := Some (Pt font_size)\<rparr>;
          r = r\<lparr>r_bold := Some bold\<rparr>;
          r = r\<lparr>r_italic := Some italic\<rparr>;
          r = (case color of None \<Rightarrow> r | Some c \<Rightarrow> r\<lparr>r_color := Some c\<rparr>)
      in r\<lparr>r_east_asia := Some font_name\<rparr>)"

definition add_heading :: "document \<Rightarrow> string \<Rightarrow> nat \<Rightarrow> nat \<Rightarrow> bool \<Rightarrow> document" where
  "add_heading doc t level sz bold =
     (let heading = new_paragraph t (Some (Heading level));
          heading = heading\<lparr>p_alignment := Some LEFT\<rparr>;
          heading = heading\<lparr>p_runs :=
            map (\<lambda>r. set_run_font r Calibri sz bold False None) (p_runs heading)\<rparr>
      in append_paragraph doc heading)"

definition add_paragraph_with_style ::
  "document \<Rightarrow> string \<Rightarrow> nat \<Rightarrow> bool \<Rightarrow> (nat \<times> nat \<times> nat) option \<Rightarrow> document" where
  "add_paragraph_with_style doc t sz bold color =
     (let para = new_paragraph [] None;
          r = add_run t;
          r = set_run_font r Calibri sz bold False color
      in append_paragraph doc (para\<lparr>p_runs := p_runs para @ [r]\<rparr>))"

definition add_section_header :: "document \<Rightarrow> string \<Rightarrow> document" where
  "add_section_header doc t =
     (let para = new_paragraph [] None;
          r = add_run t;
          r = set_run_font r Calibri 14 True False (Some (0, 51, 102));
          para = para\<lparr>p_runs := p_runs para @ [r]\<rparr>;
          para = para\<lparr>p_space_before := Some (Pt 12)\<rparr>;
          para = para\<lparr>p_space_after := Some (Pt 6)\<rparr>
      in append_paragraph doc para)"

definition add_bullet_point :: "document \<Rightarrow> string \<Rightarrow> nat \<Rightarrow> document" where
  "add_bullet_point doc t indent =
     (let para = new_paragraph t (Some List_Bullet);
          para = para\<lparr>p_left_indent := Some (quarter_inches indent)\<rparr>;
          para = para\<lparr>p_runs :=
            map (\<lambda>r. set_run_font r Calibri 11 False False None) (p_runs para)\<rparr>
      in append_paragraph doc para)"

section \<open>The literals of the source\<close>

text \<open>
  The string literals of \<open>generate_resume\<close>, the Russian ones as their UTF-8 bytes. In
  English: \<open>default_name\<close> is "Name Surname"; the labels are "Email: ", "Phone: ",
  "Location: ", "LinkedIn: " and "GitHub: "; the section headers are "About me", "Work
  experience", "Education" and "Skills"; the placeholders are "Position", "Company",
  "Degree", "School" and "Section".
\<close>

definition default_name :: string where
  "default_name =
     [CHR 0xD0, CHR 0x98, CHR 0xD0, CHR 0xBC, CHR 0xD1, CHR 0x8F] @ '' '' @ [CHR 0xD0,
     CHR 0xA4, CHR 0xD0, CHR 0xB0, CHR 0xD0, CHR 0xBC, CHR 0xD0, CHR 0xB8, CHR 0xD0,
     CHR 0xBB, CHR 0xD0, CHR 0xB8, CHR 0xD1, CHR 0x8F]"

definition label_email :: string where
  "label_email = ''Email: ''"

definition label_phone :: string where
  "label_phone =
     [CHR 0xD0, CHR 0xA2, CHR 0xD0, CHR 0xB5, CHR 0xD0, CHR 0xBB, CHR 0xD0, CHR 0xB5,
     CHR 0xD1, CHR 0x84, CHR 0xD0, CHR 0xBE, CHR 0xD0, CHR 0xBD] @ '': ''"

definition label_location :: string where
  "label_location =
     [CHR 0xD0, CHR 0x9C, CHR 0xD0, CHR 0xB5, CHR 0xD1, CHR 0x81, CHR 0xD1, CHR 0x82,
     CHR 0xD0, CHR 0xBE, CHR 0xD0, CHR 0xBF, CHR 0xD0, CHR 0xBE, CHR 0xD0, CHR 0xBB,
     CHR 0xD0, CHR 0xBE, CHR 0xD0, CHR 0xB6, CHR 0xD0, CHR 0xB5, CHR 0xD0, CHR 0xBD,
     CHR 0xD0, CHR 0xB8, CHR 0xD0, CHR 0xB5] @ '': ''"

definition label_linkedin :: string where
  "label_linkedin = ''LinkedIn: ''"

definition label_github :: string where
  "label_github = ''GitHub: ''"

definition header_summary :: string where
  "header_summary =
     [CHR 0xD0, CHR 0x9E] @ '' '' @ [CHR 0xD1, CHR 0x81, CHR 0xD0, CHR 0xB5, CHR 0xD0,
     CHR 0xB1, CHR 0xD0, CHR 0xB5]"

definition header_experience :: string where
  "header_experience =
     [CHR 0xD0, CHR 0x9E, CHR 0xD0, CHR 0xBF, CHR 0xD1, CHR 0x8B, CHR 0xD1, CHR 0x82] @
     '' '' @ [CHR 0xD1, CHR 0x80, CHR 0xD0, CHR 0xB0, CHR 0xD0, CHR 0xB1, CHR 0xD0,
     CHR 0xBE, CHR 0xD1, CHR 0x82, CHR 0xD1, CHR 0x8B]"

definition header_education :: string where
  "header_education =
     [CHR 0xD0, CHR 0x9E, CHR 0xD0, CHR 0xB1, CHR 0xD1, CHR 0x80, CHR 0xD0, CHR 0xB0,
     CHR 0xD0, CHR 0xB7, CHR 0xD0, CHR 0xBE, CHR 0xD0, CHR 0xB2, CHR 0xD0, CHR 0xB0,
     CHR 0xD0, CHR 0xBD, CHR 0xD0, CHR 0xB8, CHR 0xD0, CHR 0xB5]"

definition header_skills :: string where
  "header_skills =
     [CHR 0xD0, CHR 0x9D, CHR 0xD0, CHR 0xB0, CHR 0xD0, CHR 0xB2, CHR 0xD1, CHR 0x8B,
     CHR 0xD0, CHR 0xBA, CHR 0xD0, CHR 0xB8]"

definition default_position :: string where
  "default_position =
     [CHR 0xD0, CHR 0x94, CHR 0xD0, CHR 0xBE, CHR 0xD0, CHR 0xBB, CHR 0xD0, CHR 0xB6,
     CHR 0xD0, CHR 0xBD, CHR 0xD0, CHR 0xBE, CHR 0xD1, CHR 0x81, CHR 0xD1, CHR 0x82,
     CHR 0xD1, CHR 0x8C]"

definition default_company :: string where
  "default_company =
     [CHR 0xD0, CHR 0x9A, CHR 0xD0, CHR 0xBE, CHR 0xD0, CHR 0xBC, CHR 0xD0, CHR 0xBF,
     CHR 0xD0, CHR 0xB0, CHR 0xD0, CHR 0xBD, CHR 0xD0, CHR 0xB8, CHR 0xD1, CHR 0x8F]"

definition default_degree :: string where
  "default_degree =
     [CHR 0xD0, CHR 0xA1, CHR 0xD1, CHR 0x82, CHR 0xD0, CHR 0xB5, CHR 0xD0, CHR 0xBF,
     CHR 0xD0, CHR 0xB5, CHR 0xD0, CHR 0xBD, CHR 0xD1, CHR 0x8C]"

definition default_school :: string where
  "default_school =
     [CHR 0xD0, CHR 0xA3, CHR 0xD1, CHR 0x87, CHR 0xD0, CHR 0xB5, CHR 0xD0, CHR 0xB1,
     CHR 0xD0, CHR 0xBD, CHR 0xD0, CHR 0xBE, CHR 0xD0, CHR 0xB5] @ '' '' @ [CHR 0xD0,
     CHR 0xB7, CHR 0xD0, CHR 0xB0, CHR 0xD0, CHR 0xB2, CHR 0xD0, CHR 0xB5, CHR 0xD0,
     CHR 0xB4, CHR 0xD0, CHR 0xB5, CHR 0xD0, CHR 0xBD, CHR 0xD0, CHR 0xB8, CHR 0xD0,
     CHR 0xB5]"

definition default_title :: string where
  "default_title =
     [CHR 0xD0, CHR 0xA0, CHR 0xD0, CHR 0xB0, CHR 0xD0, CHR 0xB7, CHR 0xD0, CHR 0xB4,
     CHR 0xD0, CHR 0xB5, CHR 0xD0, CHR 0xBB]"

definition gray :: "nat \<times> nat \<times> nat" where
  "gray = (100, 100, 100)"

section \<open>Assembling the document\<close>

text \<open>
  \<open>generate_resume\<close> is one long function; each definition below is one of
  its stanzas, in the order of the source. A stanza takes what it reads from the record
  and the document built so far, and returns the document with its paragraphs appended.
  A \<open>for\<close> loop is a \<open>fold\<close> of its body over the list.
\<close>

text \<open>The name heading.\<close>

definition name_heading :: "resume_data \<Rightarrow> document \<Rightarrow> document" where
  "name_heading data doc =
     (let name = dict_get default_name
                   (pi_name (dict_get empty_personal (personal_info data)))
      in add_heading doc name 1 20 True)"

text \<open>The list \<open>contact_info\<close>. \<open>personal['email']\<close> is read only where
  \<open>personal.get('email')\<close> is true, so the key is there.\<close>

definition contact_entries :: "personal \<Rightarrow> string list" where
  "contact_entries personal =
     (let contact_info = [];
          contact_info = (if truthy_str (pi_email personal)
            then contact_info @ [label_email @ the (pi_email personal)] else contact_info);
          contact_info = (if truthy_str (pi_phone personal)
            then contact_info @ [label_phone @ the (pi_phone personal)] else contact_info);
          contact_info = (if truthy_str (pi_location personal)
            then contact_info @ [label_location @ the (pi_location personal)]
            else contact_info);
          contact_info = (if truthy_str (pi_linkedin personal)
            then contact_info @ [label_linkedin @ the (pi_linkedin personal)]
            else contact_info);
          contact_info = (if truthy_str (pi_github personal)
            then contact_info @ [label_github @ the (pi_github personal)] else contact_info)
      in contact_info)"

definition contact_line :: "resume_data \<Rightarrow> document \<Rightarrow> document" where
  "contact_line data doc =
     (let personal = dict_get empty_personal (personal_info data);
          contact_info = contact_entries personal
      in if contact_info \<noteq> [] then
           (let para = new_paragraph (str_join '' | '' contact_info) None;
                para = para\<lparr>p_alignment := Some LEFT\<rparr>;
                para = para\<lparr>p_runs :=
                  map (\<lambda>r. set_run_font r Calibri 10 False False (Some gray)) (p_runs para)\<rparr>
            in append_paragraph doc para)
         else doc)"

definition summary_section :: "resume_data \<Rightarrow> document \<Rightarrow> document" where
  "summary_section data doc =
     (if truthy_str (summary data) then
        (let doc = add_section_header doc header_summary;
             doc = add_paragraph_with_style doc (the (summary data)) 11 False None
         in add_blank doc)
      else doc)"

text \<open>The period line of an experience or education entry.\<close>

definition period_line :: "string option \<Rightarrow> document \<Rightarrow> document" where
  "period_line p doc =
     (let period = dict_get [] p
      in if period \<noteq> [] then
           (let para = new_paragraph [] None;
                r = add_run period;
                r = set_run_font r Calibri 10 False True (Some gray)
            in append_paragraph doc (para\<lparr>p_runs := p_runs para @ [r]\<rparr>))
         else doc)"

text \<open>The bold line of an experience or education entry.\<close>

definition title_line :: "string \<Rightarrow> document \<Rightarrow> document" where
  "title_line t doc =
     (let para = new_paragraph [] None;
          r = add_run t;
          r = set_run_font r Calibri 12 True False None
      in append_paragraph doc (para\<lparr>p_runs := p_runs para @ [r]\<rparr>))"

definition description_block :: "text_or_list option \<Rightarrow> document \<Rightarrow> document" where
  "description_block d doc =
     (if truthy_tl d then
        (case the d of
           Lst items \<Rightarrow> fold (\<lambda>item doc. add_bullet_point doc item 1) items doc
         | Str s \<Rightarrow> add_paragraph_with_style doc s 11 False None)
      else doc)"

text \<open>The body of the loop over \<open>data['experience']\<close>.\<close>

definition experience_entry :: "exp_entry \<Rightarrow> document \<Rightarrow> document" where
  "experience_entry exp doc =
     (let title_company = dict_get default_position (exp_position exp) @ '' | '' @
                          dict_get default_company (exp_company exp);
          doc = title_line title_company doc;
          doc = period_line (exp_period exp) doc;
          doc = description_block (exp_description exp) doc
      in add_blank doc)"

definition experience_section :: "resume_data \<Rightarrow> document \<Rightarrow> document" where
  "experience_section data doc =
     (if truthy_list (experience data) then
        (let doc = add_section_header doc header_experience
         in fold experience_entry (the (experience data)) doc)
      else doc)"

text \<open>The body of the loop over \<open>data['education']\<close>.\<close>

definition education_entry :: "edu_entry \<Rightarrow> document \<Rightarrow> document" where
  "education_entry edu doc =
     (let degree_school = dict_get default_degree (edu_degree edu) @ '' | '' @
                          dict_get default_school (edu_school edu);
          doc = title_line degree_school doc;
          doc = period_line (edu_period edu) doc
      in add_blank doc)"

definition education_section :: "resume_data \<Rightarrow> document \<Rightarrow> document" where
  "education_section data doc =
     (if truthy_list (education data) then
        (let doc = add_section_header doc header_education
         in fold education_entry (the (education data)) doc)
      else doc)"

definition skills_section :: "resume_data \<Rightarrow> document \<Rightarrow> document" where
  "skills_section data doc =
     (if truthy_tl (skills data) then
        (let doc = add_section_header doc header_skills;
             skills_text = (case the (skills data) of
                              Lst xs \<Rightarrow> str_join '', '' xs
                            | Str s \<Rightarrow> s);
             doc = add_paragraph_with_style doc skills_text 11 False None
         in add_blank doc)
      else doc)"

text \<open>The body of the loop over a section's content list; \<open>str(item)\<close> of a string is
  the string.\<close>

definition content_item :: "item \<Rightarrow> document \<Rightarrow> document" where
  "content_item it doc =
     (case it of
        Item_dict k v \<Rightarrow>
          (let key = dict_get [] k;
               val = dict_get [] v;
               para = new_paragraph [] None;
               run1 = add_run (key @ '': '');
               run1 = set_run_font run1 Calibri 11 True False None;
               para = para\<lparr>p_runs := p_runs para @ [run1]\<rparr>;
               run2 = add_run val;
               run2 = set_run_font run2 Calibri 11 False False None;
               para = para\<lparr>p_runs := p_runs para @ [run2]\<rparr>
           in append_paragraph doc para)
      | Item_str s \<Rightarrow> add_bullet_point doc s 1)"

text \<open>The body of the loop over \<open>data['additional_sections']\<close>.\<close>

definition additional_section :: "section_entry \<Rightarrow> document \<Rightarrow> document" where
  "additional_section sec doc =
     (let doc = add_section_header doc (dict_get default_title (sec_title sec));
          doc = (case sec_content sec of
                   Some (Content_list items) \<Rightarrow> fold content_item items doc
                 | Some (Content_str s) \<Rightarrow> add_paragraph_with_style doc s 11 False None
                 | None \<Rightarrow> add_paragraph_with_style doc [] 11 False None)
      in add_blank doc)"

definition additional_sections_block :: "resume_data \<Rightarrow> document \<Rightarrow> document" where
  "additional_sections_block data doc =
     (if truthy_list (additional_sections data) then
        fold additional_section (the (additional_sections data)) doc
      else doc)"

text \<open>Lines 82 to 194 of \<open>generate_resume\<close>: the document, before it is saved.\<close>

definition build_document :: "resume_data \<Rightarrow> document" where
  "build_document data =
     (let doc = Document;
          doc = doc\<lparr>normal_font_name := Some Calibri\<rparr>;
          doc = doc\<lparr>normal_font_size := Some (Pt 11)\<rparr>;
          doc = name_heading data doc;
          doc = contact_line data doc;
          doc = add_blank doc;
          doc = summary_section data doc;
          doc = experience_section data doc;
          doc = education_section data doc;
          doc = skills_section data doc;
          doc = additional_sections_block data doc
      in doc)"

section \<open>Files, the environment and the process\<close>

text \<open>
  The file system is a map from paths to contents; a path exists when it is in the
  domain. Directories and permissions are not modelled: every write succeeds.
  What the program gets from outside is a field of \<open>env\<close>: the JSON parser, the
  serialisation of a document, and the outcome of each step of the PDF bridge:
  \<open>shutil.which\<close>, \<open>subprocess.run\<close>, the renaming of the container's output
  (\<open>os.path.exists\<close>, \<open>os.remove\<close> and \<open>os.rename\<close> of lines 239 to 243), the import
  of \<open>docx2pdf\<close> and its \<open>convert\<close>. With \<open>check=True\<close>, \<open>subprocess.run\<close> returns when the
  container exits with status 0, raises \<open>CalledProcessError\<close> when it exits with another
  status, and raises \<open>FileNotFoundError\<close> when the engine's executable cannot be launched.
  What the external converters write is not part of the model.
\<close>

type_synonym files = "string \<rightharpoonup> string"

datatype load_result = Loaded resume_data | JSONDecodeError string | Load_raises string

datatype run_outcome =
    Run_ok
  | CalledProcessError string string string
  | Run_FileNotFoundError
  | Run_raises string

datatype relocate_outcome = Relocate_ok | Relocate_FileNotFoundError | Relocate_raises string

datatype import_outcome = Import_ok | Import_ImportError | Import_raises string

datatype convert_outcome = Convert_ok | Convert_ImportError | Convert_raises string

record env =
  json_load :: "string \<Rightarrow> load_result"
  docx_bytes :: "document \<Rightarrow> string"
  abspath :: "string \<Rightarrow> string"
  which_docker :: bool
  environ_image :: "string option"
  docker_run :: run_outcome
  relocate :: relocate_outcome
  import_docx2pdf :: import_outcome
  docx2pdf_convert :: convert_outcome

datatype exn = RuntimeError string | Other_exception string

datatype 'a result = Returns 'a | Sys_exit nat | Raises exn

text \<open>What the process does that can be seen from outside, in order.\<close>

datatype event =
    Print string
  | Which_docker
  | Subprocess_run string string
  | Import_docx2pdf
  | Docx2pdf_convert string string

text \<open>
  The messages of the source, in the order of the source, as their UTF-8 bytes. In
  English: "Error: file " and " not found!", "Create the file resume_data.json with the
  resume data.", "Error reading JSON: ", "Resume created: ", "PDF version created: ",
  "The attempt through Docker failed: ", "Trying the alternative method through
  docx2pdf...", "Error: to create a PDF you need:", "  1. To install Docker and the
  image: docker pull linuxserver/libreoffice:latest", "  2. Or to install the library
  docx2pdf: pip install docx2pdf", "Error converting to PDF: ", a line break and
  "Recommendations:", "  1. Install Docker: https://docs.docker.com/get-docker/",
  "  2. Pull the image: docker pull linuxserver/libreoffice:latest" and "  3. Or install
  LibreOffice locally and use docx2pdf"; the three messages of \<open>RuntimeError\<close> are "Docker
  is not installed or not available in PATH", "Error converting through Docker: " and
  "Docker not found. Make sure that Docker is installed and available."
\<close>

definition msg_error_file :: string where
  "msg_error_file =
     [CHR 0xD0, CHR 0x9E, CHR 0xD1, CHR 0x88, CHR 0xD0, CHR 0xB8, CHR 0xD0, CHR 0xB1,
     CHR 0xD0, CHR 0xBA, CHR 0xD0, CHR 0xB0] @ '': '' @ [CHR 0xD1, CHR 0x84, CHR 0xD0,
     CHR 0xB0, CHR 0xD0, CHR 0xB9, CHR 0xD0, CHR 0xBB] @ '' ''"

definition msg_not_found :: string where
  "msg_not_found =
     '' '' @ [CHR 0xD0, CHR 0xBD, CHR 0xD0, CHR 0xB5] @ '' '' @ [CHR 0xD0, CHR 0xBD,
     CHR 0xD0, CHR 0xB0, CHR 0xD0, CHR 0xB9, CHR 0xD0, CHR 0xB4, CHR 0xD0, CHR 0xB5,
     CHR 0xD0, CHR 0xBD] @ ''!''"

definition msg_create_file :: string where
  "msg_create_file =
     [CHR 0xD0, CHR 0xA1, CHR 0xD0, CHR 0xBE, CHR 0xD0, CHR 0xB7, CHR 0xD0, CHR 0xB4,
     CHR 0xD0, CHR 0xB0, CHR 0xD0, CHR 0xB9, CHR 0xD1, CHR 0x82, CHR 0xD0, CHR 0xB5] @
     '' '' @ [CHR 0xD1, CHR 0x84, CHR 0xD0, CHR 0xB0, CHR 0xD0, CHR 0xB9, CHR 0xD0,
     CHR 0xBB] @ '' resume_data.json '' @ [CHR 0xD1, CHR 0x81] @ '' '' @ [CHR 0xD0,
     CHR 0xB4, CHR 0xD0, CHR 0xB0, CHR 0xD0, CHR 0xBD, CHR 0xD0, CHR 0xBD, CHR 0xD1,
     CHR 0x8B, CHR 0xD0, CHR 0xBC, CHR 0xD0, CHR 0xB8] @ '' '' @ [CHR 0xD1, CHR 0x80,
     CHR 0xD0, CHR 0xB5, CHR 0xD0, CHR 0xB7, CHR 0xD1, CHR 0x8E, CHR 0xD0, CHR 0xBC,
     CHR 0xD0, CHR 0xB5] @ ''.''"

definition msg_json_error :: string where
  "msg_json_error =
     [CHR 0xD0, CHR 0x9E, CHR 0xD1, CHR 0x88, CHR 0xD0, CHR 0xB8, CHR 0xD0, CHR 0xB1,
     CHR 0xD0, CHR 0xBA, CHR 0xD0, CHR 0xB0] @ '' '' @ [CHR 0xD0, CHR 0xBF, CHR 0xD1,
     CHR 0x80, CHR 0xD0, CHR 0xB8] @ '' '' @ [CHR 0xD1, CHR 0x87, CHR 0xD1, CHR 0x82,
     CHR 0xD0, CHR 0xB5, CHR 0xD0, CHR 0xBD, CHR 0xD0, CHR 0xB8, CHR 0xD0, CHR 0xB8] @
     '' JSON: ''"

definition msg_created :: string where
  "msg_created =
     [CHR 0xD0, CHR 0xA0, CHR 0xD0, CHR 0xB5, CHR 0xD0, CHR 0xB7, CHR 0xD1, CHR 0x8E,
     CHR 0xD0, CHR 0xBC, CHR 0xD0, CHR 0xB5] @ '' '' @ [CHR 0xD1, CHR 0x83, CHR 0xD1,
     CHR 0x81, CHR 0xD0, CHR 0xBF, CHR 0xD0, CHR 0xB5, CHR 0xD1, CHR 0x88, CHR 0xD0,
     CHR 0xBD, CHR 0xD0, CHR 0xBE] @ '' '' @ [CHR 0xD1, CHR 0x81, CHR 0xD0, CHR 0xBE,
     CHR 0xD0, CHR 0xB7, CHR 0xD0, CHR 0xB4, CHR 0xD0, CHR 0xB0, CHR 0xD0, CHR 0xBD,
     CHR 0xD0, CHR 0xBE] @ '': ''"

definition msg_pdf_created :: string where
  "msg_pdf_created =
     ''PDF '' @ [CHR 0xD0, CHR 0xB2, CHR 0xD0, CHR 0xB5, CHR 0xD1, CHR 0x80, CHR 0xD1,
     CHR 0x81, CHR 0xD0, CHR 0xB8, CHR 0xD1, CHR 0x8F] @ '' '' @ [CHR 0xD1, CHR 0x81,
     CHR 0xD0, CHR 0xBE, CHR 0xD0, CHR 0xB7, CHR 0xD0, CHR 0xB4, CHR 0xD0, CHR 0xB0,
     CHR 0xD0, CHR 0xBD, CHR 0xD0, CHR 0xB0] @ '': ''"

definition msg_docker_failed :: string where
  "msg_docker_failed =
     [CHR 0xD0, CHR 0x9F, CHR 0xD0, CHR 0xBE, CHR 0xD0, CHR 0xBF, CHR 0xD1, CHR 0x8B,
     CHR 0xD1, CHR 0x82, CHR 0xD0, CHR 0xBA, CHR 0xD0, CHR 0xB0] @ '' '' @ [CHR 0xD1,
     CHR 0x87, CHR 0xD0, CHR 0xB5, CHR 0xD1, CHR 0x80, CHR 0xD0, CHR 0xB5, CHR 0xD0,
     CHR 0xB7] @ '' Docker '' @ [CHR 0xD0, CHR 0xBD, CHR 0xD0, CHR 0xB5] @ '' '' @
     [CHR 0xD1, CHR 0x83, CHR 0xD0, CHR 0xB4, CHR 0xD0, CHR 0xB0, CHR 0xD0, CHR 0xBB,
     CHR 0xD0, CHR 0xB0, CHR 0xD1, CHR 0x81, CHR 0xD1, CHR 0x8C] @ '': ''"

definition msg_trying_fallback :: string where
  "msg_trying_fallback =
     [CHR 0xD0, CHR 0x9F, CHR 0xD1, CHR 0x80, CHR 0xD0, CHR 0xBE, CHR 0xD0, CHR 0xB1,
     CHR 0xD1, CHR 0x83, CHR 0xD1, CHR 0x8E] @ '' '' @ [CHR 0xD0, CHR 0xB0, CHR 0xD0,
     CHR 0xBB, CHR 0xD1, CHR 0x8C, CHR 0xD1, CHR 0x82, CHR 0xD0, CHR 0xB5, CHR 0xD1,
     CHR 0x80, CHR 0xD0, CHR 0xBD, CHR 0xD0, CHR 0xB0, CHR 0xD1, CHR 0x82, CHR 0xD0,
     CHR 0xB8, CHR 0xD0, CHR 0xB2, CHR 0xD0, CHR 0xBD, CHR 0xD1, CHR 0x8B, CHR 0xD0,
     CHR 0xB9] @ '' '' @ [CHR 0xD0, CHR 0xBC, CHR 0xD0, CHR 0xB5, CHR 0xD1, CHR 0x82,
     CHR 0xD0, CHR 0xBE, CHR 0xD0, CHR 0xB4] @ '' '' @ [CHR 0xD1, CHR 0x87, CHR 0xD0,
     CHR 0xB5, CHR 0xD1, CHR 0x80, CHR 0xD0, CHR 0xB5, CHR 0xD0, CHR 0xB7] @
     '' docx2pdf...''"

definition msg_pdf_needs :: string where
  "msg_pdf_needs =
     [CHR 0xD0, CHR 0x9E, CHR 0xD1, CHR 0x88, CHR 0xD0, CHR 0xB8, CHR 0xD0, CHR 0xB1,
     CHR 0xD0, CHR 0xBA, CHR 0xD0, CHR 0xB0] @ '': '' @ [CHR 0xD0, CHR 0xB4, CHR 0xD0,
     CHR 0xBB, CHR 0xD1, CHR 0x8F] @ '' '' @ [CHR 0xD1, CHR 0x81, CHR 0xD0, CHR 0xBE,
     CHR 0xD0, CHR 0xB7, CHR 0xD0, CHR 0xB4, CHR 0xD0, CHR 0xB0, CHR 0xD0, CHR 0xBD,
     CHR 0xD0, CHR 0xB8, CHR 0xD1, CHR 0x8F] @ '' PDF '' @ [CHR 0xD0, CHR 0xBD,
     CHR 0xD0, CHR 0xB5, CHR 0xD0, CHR 0xBE, CHR 0xD0, CHR 0xB1, CHR 0xD1, CHR 0x85,
     CHR 0xD0, CHR 0xBE, CHR 0xD0, CHR 0xB4, CHR 0xD0, CHR 0xB8, CHR 0xD0, CHR 0xBC,
     CHR 0xD0, CHR 0xBE] @ '':''"

definition msg_install_docker :: string where
  "msg_install_docker =
     ''  1. '' @ [CHR 0xD0, CHR 0xA3, CHR 0xD1, CHR 0x81, CHR 0xD1, CHR 0x82, CHR 0xD0,
     CHR 0xB0, CHR 0xD0, CHR 0xBD, CHR 0xD0, CHR 0xBE, CHR 0xD0, CHR 0xB2, CHR 0xD0,
     CHR 0xB8, CHR 0xD1, CHR 0x82, CHR 0xD1, CHR 0x8C] @ '' Docker '' @ [CHR 0xD0,
     CHR 0xB8] @ '' '' @ [CHR 0xD0, CHR 0xBE, CHR 0xD0, CHR 0xB1, CHR 0xD1, CHR 0x80,
     CHR 0xD0, CHR 0xB0, CHR 0xD0, CHR 0xB7] @
     '': docker pull linuxserver/libreoffice:latest''"

definition msg_install_docx2pdf :: string where
  "msg_install_docx2pdf =
     ''  2. '' @ [CHR 0xD0, CHR 0x98, CHR 0xD0, CHR 0xBB, CHR 0xD0, CHR 0xB8] @ '' '' @
     [CHR 0xD1, CHR 0x83, CHR 0xD1, CHR 0x81, CHR 0xD1, CHR 0x82, CHR 0xD0, CHR 0xB0,
     CHR 0xD0, CHR 0xBD, CHR 0xD0, CHR 0xBE, CHR 0xD0, CHR 0xB2, CHR 0xD0, CHR 0xB8,
     CHR 0xD1, CHR 0x82, CHR 0xD1, CHR 0x8C] @ '' '' @ [CHR 0xD0, CHR 0xB1, CHR 0xD0,
     CHR 0xB8, CHR 0xD0, CHR 0xB1, CHR 0xD0, CHR 0xBB, CHR 0xD0, CHR 0xB8, CHR 0xD0,
     CHR 0xBE, CHR 0xD1, CHR 0x82, CHR 0xD0, CHR 0xB5, CHR 0xD0, CHR 0xBA, CHR 0xD1,
     CHR 0x83] @ '' docx2pdf: pip install docx2pdf''"

definition msg_pdf_error :: string where
  "msg_pdf_error =
     [CHR 0xD0, CHR 0x9E, CHR 0xD1, CHR 0x88, CHR 0xD0, CHR 0xB8, CHR 0xD0, CHR 0xB1,
     CHR 0xD0, CHR 0xBA, CHR 0xD0, CHR 0xB0] @ '' '' @ [CHR 0xD0, CHR 0xBF, CHR 0xD1,
     CHR 0x80, CHR 0xD0, CHR 0xB8] @ '' '' @ [CHR 0xD0, CHR 0xBA, CHR 0xD0, CHR 0xBE,
     CHR 0xD0, CHR 0xBD, CHR 0xD0, CHR 0xB2, CHR 0xD0, CHR 0xB5, CHR 0xD1, CHR 0x80,
     CHR 0xD1, CHR 0x82, CHR 0xD0, CHR 0xB0, CHR 0xD1, CHR 0x86, CHR 0xD0, CHR 0xB8,
     CHR 0xD0, CHR 0xB8] @ '' '' @ [CHR 0xD0, CHR 0xB2] @ '' PDF: ''"

definition msg_recommend :: string where
  "msg_recommend =
     [CHR 0x0A, CHR 0xD0, CHR 0xA0, CHR 0xD0, CHR 0xB5, CHR 0xD0, CHR 0xBA, CHR 0xD0,
     CHR 0xBE, CHR 0xD0, CHR 0xBC, CHR 0xD0, CHR 0xB5, CHR 0xD0, CHR 0xBD, CHR 0xD0,
     CHR 0xB4, CHR 0xD0, CHR 0xB0, CHR 0xD1, CHR 0x86, CHR 0xD0, CHR 0xB8, CHR 0xD0,
     CHR 0xB8] @ '':''"

definition msg_rec1 :: string where
  "msg_rec1 =
     ''  1. '' @ [CHR 0xD0, CHR 0xA3, CHR 0xD1, CHR 0x81, CHR 0xD1, CHR 0x82, CHR 0xD0,
     CHR 0xB0, CHR 0xD0, CHR 0xBD, CHR 0xD0, CHR 0xBE, CHR 0xD0, CHR 0xB2, CHR 0xD0,
     CHR 0xB8, CHR 0xD1, CHR 0x82, CHR 0xD0, CHR 0xB5] @
     '' Docker: https://docs.docker.com/get-docker/''"

definition msg_rec2 :: string where
  "msg_rec2 =
     ''  2. '' @ [CHR 0xD0, CHR 0x97, CHR 0xD0, CHR 0xB0, CHR 0xD0, CHR 0xB3, CHR 0xD1,
     CHR 0x80, CHR 0xD1, CHR 0x83, CHR 0xD0, CHR 0xB7, CHR 0xD0, CHR 0xB8, CHR 0xD1,
     CHR 0x82, CHR 0xD0, CHR 0xB5] @ '' '' @ [CHR 0xD0, CHR 0xBE, CHR 0xD0, CHR 0xB1,
     CHR 0xD1, CHR 0x80, CHR 0xD0, CHR 0xB0, CHR 0xD0, CHR 0xB7] @
     '': docker pull linuxserver/libreoffice:latest''"

definition msg_rec3 :: string where
  "msg_rec3 =
     ''  3. '' @ [CHR 0xD0, CHR 0x98, CHR 0xD0, CHR 0xBB, CHR 0xD0, CHR 0xB8] @ '' '' @
     [CHR 0xD1, CHR 0x83, CHR 0xD1, CHR 0x81, CHR 0xD1, CHR 0x82, CHR 0xD0, CHR 0xB0,
     CHR 0xD0, CHR 0xBD, CHR 0xD0, CHR 0xBE, CHR 0xD0, CHR 0xB2, CHR 0xD0, CHR 0xB8,
     CHR 0xD1, CHR 0x82, CHR 0xD0, CHR 0xB5] @ '' LibreOffice '' @ [CHR 0xD0, CHR 0xBB,
     CHR 0xD0, CHR 0xBE, CHR 0xD0, CHR 0xBA, CHR 0xD0, CHR 0xB0, CHR 0xD0, CHR 0xBB,
     CHR 0xD1, CHR 0x8C, CHR 0xD0, CHR 0xBD, CHR 0xD0, CHR 0xBE] @ '' '' @ [CHR 0xD0,
     CHR 0xB8] @ '' '' @ [CHR 0xD0, CHR 0xB8, CHR 0xD1, CHR 0x81, CHR 0xD0, CHR 0xBF,
     CHR 0xD0, CHR 0xBE, CHR 0xD0, CHR 0xBB, CHR 0xD1, CHR 0x8C, CHR 0xD0, CHR 0xB7,
     CHR 0xD1, CHR 0x83, CHR 0xD0, CHR 0xB9, CHR 0xD1, CHR 0x82, CHR 0xD0, CHR 0xB5] @
     '' docx2pdf''"

definition err_no_docker :: string where
  "err_no_docker =
     ''Docker '' @ [CHR 0xD0, CHR 0xBD, CHR 0xD0, CHR 0xB5] @ '' '' @ [CHR 0xD1,
     CHR 0x83, CHR 0xD1, CHR 0x81, CHR 0xD1, CHR 0x82, CHR 0xD0, CHR 0xB0, CHR 0xD0,
     CHR 0xBD, CHR 0xD0, CHR 0xBE, CHR 0xD0, CHR 0xB2, CHR 0xD0, CHR 0xBB, CHR 0xD0,
     CHR 0xB5, CHR 0xD0, CHR 0xBD] @ '' '' @ [CHR 0xD0, CHR 0xB8, CHR 0xD0, CHR 0xBB,
     CHR 0xD0, CHR 0xB8] @ '' '' @ [CHR 0xD0, CHR 0xBD, CHR 0xD0, CHR 0xB5] @ '' '' @
     [CHR 0xD0, CHR 0xB4, CHR 0xD0, CHR 0xBE, CHR 0xD1, CHR 0x81, CHR 0xD1, CHR 0x82,
     CHR 0xD1, CHR 0x83, CHR 0xD0, CHR 0xBF, CHR 0xD0, CHR 0xB5, CHR 0xD0, CHR 0xBD] @
     '' '' @ [CHR 0xD0, CHR 0xB2] @ '' PATH''"

definition err_docker_convert :: string where
  "err_docker_convert =
     [CHR 0xD0, CHR 0x9E, CHR 0xD1, CHR 0x88, CHR 0xD0, CHR 0xB8, CHR 0xD0, CHR 0xB1,
     CHR 0xD0, CHR 0xBA, CHR 0xD0, CHR 0xB0] @ '' '' @ [CHR 0xD0, CHR 0xBF, CHR 0xD1,
     CHR 0x80, CHR 0xD0, CHR 0xB8] @ '' '' @ [CHR 0xD0, CHR 0xBA, CHR 0xD0, CHR 0xBE,
     CHR 0xD0, CHR 0xBD, CHR 0xD0, CHR 0xB2, CHR 0xD0, CHR 0xB5, CHR 0xD1, CHR 0x80,
     CHR 0xD1, CHR 0x82, CHR 0xD0, CHR 0xB0, CHR 0xD1, CHR 0x86, CHR 0xD0, CHR 0xB8,
     CHR 0xD0, CHR 0xB8] @ '' '' @ [CHR 0xD1, CHR 0x87, CHR 0xD0, CHR 0xB5, CHR 0xD1,
     CHR 0x80, CHR 0xD0, CHR 0xB5, CHR 0xD0, CHR 0xB7] @ '' Docker: ''"

definition err_docker_not_found :: string where
  "err_docker_not_found =
     ''Docker '' @ [CHR 0xD0, CHR 0xBD, CHR 0xD0, CHR 0xB5] @ '' '' @ [CHR 0xD0,
     CHR 0xBD, CHR 0xD0, CHR 0xB0, CHR 0xD0, CHR 0xB9, CHR 0xD0, CHR 0xB4, CHR 0xD0,
     CHR 0xB5, CHR 0xD0, CHR 0xBD] @ ''. '' @ [CHR 0xD0, CHR 0xA3, CHR 0xD0, CHR 0xB1,
     CHR 0xD0, CHR 0xB5, CHR 0xD0, CHR 0xB4, CHR 0xD0, CHR 0xB8, CHR 0xD1, CHR 0x82,
     CHR 0xD0, CHR 0xB5, CHR 0xD1, CHR 0x81, CHR 0xD1, CHR 0x8C] @ '', '' @ [CHR 0xD1,
     CHR 0x87, CHR 0xD1, CHR 0x82, CHR 0xD0, CHR 0xBE] @ '' Docker '' @ [CHR 0xD1,
     CHR 0x83, CHR 0xD1, CHR 0x81, CHR 0xD1, CHR 0x82, CHR 0xD0, CHR 0xB0, CHR 0xD0,
     CHR 0xBD, CHR 0xD0, CHR 0xBE, CHR 0xD0, CHR 0xB2, CHR 0xD0, CHR 0xBB, CHR 0xD0,
     CHR 0xB5, CHR 0xD0, CHR 0xBD] @ '' '' @ [CHR 0xD0, CHR 0xB8] @ '' '' @ [CHR 0xD0,
     CHR 0xB4, CHR 0xD0, CHR 0xBE, CHR 0xD1, CHR 0x81, CHR 0xD1, CHR 0x82, CHR 0xD1,
     CHR 0x83, CHR 0xD0, CHR 0xBF, CHR 0xD0, CHR 0xB5, CHR 0xD0, CHR 0xBD] @ ''.''"

text \<open>\<open>generate_resume(data_file, output_file)\<close>: how it ends, what it prints, and the
  files it leaves.\<close>

definition generate_resume ::
  "env \<Rightarrow> files \<Rightarrow> string \<Rightarrow> string \<Rightarrow> unit result \<times> string list \<times> files" where
  "generate_resume e fs data_file output_file =
     (case fs data_file of
        None \<Rightarrow>
          (Sys_exit 1, [msg_error_file @ data_file @ msg_not_found, msg_create_file], fs)
      | Some text \<Rightarrow>
          (case json_load e text of
             JSONDecodeError detail \<Rightarrow> (Sys_exit 1, [msg_json_error @ detail], fs)
           | Load_raises x \<Rightarrow> (Raises (Other_exception x), [], fs)
           | Loaded data \<Rightarrow>
               (let doc = build_document data
                in (Returns (), [msg_created @ output_file],
                    fs(output_file \<mapsto> docx_bytes e doc)))))"

text \<open>\<open>convert_docx_to_pdf_docker(docx_file, pdf_file)\<close>. The \<open>try\<close> body runs the
  container and, when that returns, renames its output; both handlers cover both steps,
  and only the renaming can raise once the run has returned.\<close>

definition convert_docx_to_pdf_docker ::
  "env \<Rightarrow> string \<Rightarrow> string option \<Rightarrow> string result \<times> event list" where
  "convert_docx_to_pdf_docker e docx_file pdf_file =
     (let pdf_file = (case pdf_file of
                        None \<Rightarrow> str_replace ''.docx'' ''.pdf'' docx_file
                      | Some p \<Rightarrow> p);
          docx_abs = abspath e docx_file;
          pdf_abs = abspath e pdf_file
      in if \<not> which_docker e then (Raises (RuntimeError err_no_docker), [Which_docker])
         else
           (let docker_image = dict_get ''linuxserver/libreoffice:latest'' (environ_image e);
                events = [Which_docker, Subprocess_run docker_image docx_abs]
            in case docker_run e of
                 Run_ok \<Rightarrow>
                   (case relocate e of
                      Relocate_ok \<Rightarrow> (Returns pdf_abs, events)
                    | Relocate_FileNotFoundError \<Rightarrow>
                        (Raises (RuntimeError err_docker_not_found), events)
                    | Relocate_raises x \<Rightarrow> (Raises (Other_exception x), events))
               | CalledProcessError err out str_e \<Rightarrow>
                   (let error_msg = (if err \<noteq> [] then err
                                     else if out \<noteq> [] then out else str_e)
                    in (Raises (RuntimeError (err_docker_convert @ error_msg)), events))
               | Run_FileNotFoundError \<Rightarrow>
                   (Raises (RuntimeError err_docker_not_found), events)
               | Run_raises x \<Rightarrow> (Raises (Other_exception x), events)))"

record args =
  arg_input :: string
  arg_output :: string
  arg_pdf :: bool

datatype status = Exit nat | Uncaught exn

record process =
  exit_status :: status
  trace :: "event list"
  files_after :: files

text \<open>The output path of the main block: \<open>.docx\<close> is appended when it is missing.\<close>

definition output_path :: "string \<Rightarrow> string" where
  "output_path output =
     (let output_file = output
      in if \<not> str_endswith output_file ''.docx'' then output_file @ ''.docx''
         else output_file)"

text \<open>The fallback, from the import of \<open>docx2pdf\<close> on: how it ends and its events.\<close>

definition fallback :: "env \<Rightarrow> string \<Rightarrow> string \<Rightarrow> status \<times> event list" where
  "fallback e output_file pdf_file =
     (let guidance = [Print msg_pdf_needs, Print msg_install_docker,
                      Print msg_install_docx2pdf];
          advice = (\<lambda>e2. [Print (msg_pdf_error @ e2), Print msg_recommend, Print msg_rec1,
                          Print msg_rec2, Print msg_rec3])
      in case import_docx2pdf e of
           Import_ImportError \<Rightarrow> (Exit 1, Import_docx2pdf # guidance)
         | Import_raises e2 \<Rightarrow> (Exit 1, Import_docx2pdf # advice e2)
         | Import_ok \<Rightarrow>
             (let events = [Import_docx2pdf, Docx2pdf_convert output_file pdf_file]
              in case docx2pdf_convert e of
                   Convert_ok \<Rightarrow> (Exit 0, events @ [Print (msg_pdf_created @ pdf_file)])
                 | Convert_ImportError \<Rightarrow> (Exit 1, events @ guidance)
                 | Convert_raises e2 \<Rightarrow> (Exit 1, events @ advice e2)))"

text \<open>The main block, after the arguments are parsed.\<close>

definition main :: "env \<Rightarrow> files \<Rightarrow> args \<Rightarrow> process" where
  "main e fs a =
     (let output_file = output_path (arg_output a)
      in case generate_resume e fs (arg_input a) output_file of
           (Sys_exit n, out, fs') \<Rightarrow>
             \<lparr>exit_status = Exit n, trace = map Print out, files_after = fs'\<rparr>
         | (Raises x, out, fs') \<Rightarrow>
             \<lparr>exit_status = Uncaught x, trace = map Print out, files_after = fs'\<rparr>
         | (Returns u, out, fs') \<Rightarrow>
             if arg_pdf a then
               (let pdf_file = str_replace ''.docx'' ''.pdf'' output_file
                in case convert_docx_to_pdf_docker e output_file (Some pdf_file) of
                     (Returns p, events) \<Rightarrow>
                       \<lparr>exit_status = Exit 0,
                        trace = map Print out @ events @ [Print (msg_pdf_created @ pdf_file)],
                        files_after = fs'\<rparr>
                   | (Raises (RuntimeError msg), events) \<Rightarrow>
                       (let (st, events') = fallback e output_file pdf_file
                        in \<lparr>exit_status = st,
                            trace = map Print out @ events @
                              [Print (msg_docker_failed @ msg), Print msg_trying_fallback] @
                              events',
                            files_after = fs'\<rparr>)
                   | (Raises x, events) \<Rightarrow>
                       \<lparr>exit_status = Uncaught x, trace = map Print out @ events,
                        files_after = fs'\<rparr>
                   | (Sys_exit n, events) \<Rightarrow>
                       \<lparr>exit_status = Exit n, trace = map Print out @ events,
                        files_after = fs'\<rparr>)
             else \<lparr>exit_status = Exit 0, trace = map Print out, files_after = fs'\<rparr>)"

text \<open>What the process printed.\<close>

fun printed :: "event list \<Rightarrow> string list" where
  "printed [] = []"
| "printed (Print s # es) = s # printed es"
| "printed (_ # es) = printed es"

section \<open>Reading a document\<close>

text \<open>The paragraphs a stanza appends: those it leaves in a document that had none.\<close>

definition emitted :: "(document \<Rightarrow> document) \<Rightarrow> docx_paragraph list" where
  "emitted f = body (f Document)"

text \<open>\<open>paragraph.text\<close>: the texts of the runs, concatenated.\<close>

definition p_text :: "docx_paragraph \<Rightarrow> string" where
  "p_text p = concat (map r_text (p_runs p))"

text \<open>
  The blocks of the document are told apart by what only their stanza sets: the heading
  style for the name, a left alignment on an unstyled paragraph for the contact line, the
  spacing before the paragraph for a section header.
\<close>

datatype kind = K_heading | K_contact | K_section_header | K_other

definition kind_of :: "docx_paragraph \<Rightarrow> kind" where
  "kind_of p =
     (if p_style p = Some (Heading 1) then K_heading
      else if p_alignment p = Some LEFT then K_contact
      else if p_space_before p = Some (Pt 12) then K_section_header
      else K_other)"

text \<open>The outline of a document: its headings, contact lines and section headers, in
  order, each with its text.\<close>

definition outline :: "docx_paragraph list \<Rightarrow> (kind \<times> string) list" where
  "outline ps = map (\<lambda>p. (kind_of p, p_text p)) (filter (\<lambda>p. kind_of p \<noteq> K_other) ps)"

definition is_bullet :: "docx_paragraph \<Rightarrow> bool" where
  "is_bullet p = (p_style p = Some List_Bullet)"

definition is_indented :: "docx_paragraph \<Rightarrow> bool" where
  "is_indented p = (case p_left_indent p of None \<Rightarrow> False | Some n \<Rightarrow> 0 < n)"

text \<open>A period line is the only paragraph set in italics.\<close>

definition is_period_line :: "docx_paragraph \<Rightarrow> bool" where
  "is_period_line p = (map r_italic (p_runs p) = [Some True])"

text \<open>A run whose font is bound in the Latin slot and in the East-Asian slot.\<close>

definition font_bound :: "string \<Rightarrow> run \<Rightarrow> bool" where
  "font_bound f r = (r_font_name r = Some f \<and> r_east_asia r = Some f)"

definition all_runs :: "docx_paragraph list \<Rightarrow> run list" where
  "all_runs ps = concat (map p_runs ps)"

section \<open>Sample records\<close>

text \<open>A record with every field filled in.\<close>

definition sample_full :: resume_data where
  "sample_full =
     \<lparr>personal_info = Some \<lparr>pi_name = Some ''Ann Lee'', pi_email = Some ''ann@example.org'',
        pi_phone = None, pi_location = Some ''Riga'', pi_linkedin = None,
        pi_github = Some ''annlee''\<rparr>,
      summary = Some ''Engineer'',
      experience = Some
        [\<lparr>exp_position = Some ''Developer'', exp_company = Some ''Acme'',
          exp_period = Some ''2020-2024'',
          exp_description = Some (Lst [''Built it'', ''Ran it''])\<rparr>,
         \<lparr>exp_position = None, exp_company = None, exp_period = None,
          exp_description = Some (Str ''Odd jobs'')\<rparr>],
      education = Some
        [\<lparr>edu_degree = Some ''BSc'', edu_school = None, edu_period = Some ''2016-2020''\<rparr>],
      skills = Some (Lst [''Python'', ''Go'', ''Rust'']),
      additional_sections = Some
        [\<lparr>sec_title = Some ''Languages'',
          sec_content = Some (Content_list
            [Item_dict (Some ''English'') (Some ''C1''), Item_str ''Latvian''])\<rparr>,
         \<lparr>sec_title = None, sec_content = Some (Content_str ''Chess'')\<rparr>]\<rparr>"

text \<open>The same record with a \<open>personal_info\<close> that holds a name and nothing else.\<close>

definition sample_name_only :: resume_data where
  "sample_name_only =
     sample_full\<lparr>personal_info := Some (empty_personal\<lparr>pi_name := Some ''Ann Lee''\<rparr>)\<rparr>"

text \<open>An experience entry with no key at all, and one whose description is the empty
  string.\<close>

definition sample_bare_entry :: exp_entry where
  "sample_bare_entry =
     \<lparr>exp_position = None, exp_company = None, exp_period = None, exp_description = None\<rparr>"

definition sample_empty_description :: exp_entry where
  "sample_empty_description =
     \<lparr>exp_position = Some ''Developer'', exp_company = Some ''Acme'', exp_period = None,
      exp_description = Some (Str [])\<rparr>"

section \<open>Reading a run of the process\<close>

text \<open>The steps of the PDF bridge in a trace, without what was printed, and the place of
  each step in the bridge: the container attempt is the look-up of the engine and the run
  of the container, the fallback attempt the import of the library and its call.\<close>

fun attempts :: "event list \<Rightarrow> event list" where
  "attempts [] = []"
| "attempts (Print s # es) = attempts es"
| "attempts (ev # es) = ev # attempts es"

fun phase :: "event \<Rightarrow> nat" where
  "phase (Print s) = 0"
| "phase Which_docker = 1"
| "phase (Subprocess_run img docx) = 2"
| "phase Import_docx2pdf = 3"
| "phase (Docx2pdf_convert docx pdf) = 4"

text \<open>The container attempt has failed: the engine is absent, at the look-up or when
  its executable is launched, or the container has exited with a nonzero status.\<close>

definition container_failed :: "env \<Rightarrow> bool" where
  "container_failed e =
     (if which_docker e then
        (case docker_run e of
           Run_ok \<Rightarrow> False
         | CalledProcessError err out str_e \<Rightarrow> True
         | Run_FileNotFoundError \<Rightarrow> True
         | Run_raises x \<Rightarrow> False)
      else True)"

text \<open>The input file is there and parses.\<close>

definition loads :: "env \<Rightarrow> files \<Rightarrow> string \<Rightarrow> bool" where
  "loads e fs data_file =
     (case fs data_file of
        None \<Rightarrow> False
      | Some content \<Rightarrow>
          (case json_load e content of
             Loaded data \<Rightarrow> True
           | JSONDecodeError detail \<Rightarrow> False
           | Load_raises x \<Rightarrow> False))"

text \<open>A machine with neither the container engine nor the fallback library, a file
  system holding one input file, and a command line asking for a PDF.\<close>

definition sample_env :: env where
  "sample_env =
     \<lparr>json_load = (\<lambda>s. if s = ''{...}'' then Loaded sample_full
                          else JSONDecodeError ''Expecting value''),
      docx_bytes = (\<lambda>doc. ''PK''),
      abspath = (\<lambda>p. ''/home/ann/'' @ p),
      which_docker = False,
      environ_image = None,
      docker_run = Run_FileNotFoundError,
      relocate = Relocate_ok,
      import_docx2pdf = Import_ImportError,
      docx2pdf_convert = Convert_ok\<rparr>"

definition sample_files :: files where
  "sample_files = [''resume_data.json'' \<mapsto> ''{...}'']"

definition sample_args :: args where
  "sample_args = \<lparr>arg_input = ''resume_data.json'', arg_output = ''cv'', arg_pdf = True\<rparr>"

text \<open>A machine with the container engine and the fallback library, where the container
  converts the document and exits with status 0 and the renaming of its output then
  raises \<open>FileNotFoundError\<close>; and a command line whose output path has \<open>.docx\<close> in a
  directory name, so that the path of the PDF lies in a directory that does not exist.\<close>

definition sample_env_rename_fails :: env where
  "sample_env_rename_fails =
     sample_env\<lparr>which_docker := True, docker_run := Run_ok,
       relocate := Relocate_FileNotFoundError, import_docx2pdf := Import_ok\<rparr>"

definition sample_args_subdir :: args where
  "sample_args_subdir =
     \<lparr>arg_input = ''resume_data.json'', arg_output = ''out.docx.d/cv.docx'', arg_pdf = True\<rparr>"

section \<open>Lemmas\<close>

subsection \<open>Stanzas only append\<close>

lemma body_append_paragraph: "body (append_paragraph doc p) = body doc @ [p]"
  by (simp add: append_paragraph_def)

lemma body_Document: "body Document = []"
  by (simp add: Document_def)

lemma fold_body:
  assumes "\<And>x d. body (f x d) = body d @ g x"
  shows "body (fold f xs d) = body d @ concat (map g xs)"
  by (induction xs arbitrary: d) (simp_all add: assms)

named_theorems app \<open>a stanza appends its paragraphs to the document\<close>

lemma app_add_blank [app]: "body (add_blank doc) = body doc @ emitted add_blank"
  by (simp add: emitted_def add_blank_def body_append_paragraph body_Document)

lemma app_add_heading [app]:
  "body (add_heading doc t l s b) = body doc @ emitted (\<lambda>d. add_heading d t l s b)"
  by (simp add: emitted_def add_heading_def body_append_paragraph body_Document Let_def)

lemma app_add_paragraph_with_style [app]:
  "body (add_paragraph_with_style doc t s b c) =
   body doc @ emitted (\<lambda>d. add_paragraph_with_style d t s b c)"
  by (simp add: emitted_def add_paragraph_with_style_def body_append_paragraph
      body_Document Let_def)

lemma app_add_section_header [app]:
  "body (add_section_header doc t) = body doc @ emitted (\<lambda>d. add_section_header d t)"
  by (simp add: emitted_def add_section_header_def body_append_paragraph body_Document
      Let_def)

lemma app_add_bullet_point [app]:
  "body (add_bullet_point doc t i) = body doc @ emitted (\<lambda>d. add_bullet_point d t i)"
  by (simp add: emitted_def add_bullet_point_def body_append_paragraph body_Document
      Let_def)

lemma app_title_line [app]:
  "body (title_line t doc) = body doc @ emitted (title_line t)"
  by (simp add: emitted_def title_line_def body_append_paragraph body_Document Let_def)

lemma app_period_line [app]:
  "body (period_line t doc) = body doc @ emitted (period_line t)"
  by (simp add: emitted_def period_line_def body_append_paragraph body_Document Let_def)

lemma app_bullets [app]:
  "body (fold (\<lambda>item doc. add_bullet_point doc item i) items doc) =
   body doc @ concat (map (\<lambda>item. emitted (\<lambda>d. add_bullet_point d item i)) items)"
  by (rule fold_body) (rule app_add_bullet_point)

lemma app_description_block [app]:
  "body (description_block x doc) = body doc @ emitted (description_block x)"
  apply (subst emitted_def)
  apply (simp add: description_block_def app body_Document split: text_or_list.split)
  done

lemma app_experience_entry [app]:
  "body (experience_entry x doc) = body doc @ emitted (experience_entry x)"
  apply (subst emitted_def)
  apply (simp add: experience_entry_def Let_def app body_Document)
  done

lemma app_education_entry [app]:
  "body (education_entry x doc) = body doc @ emitted (education_entry x)"
  apply (subst emitted_def)
  apply (simp add: education_entry_def Let_def app body_Document)
  done

lemma app_content_item [app]:
  "body (content_item x doc) = body doc @ emitted (content_item x)"
  apply (subst emitted_def)
  apply (simp add: content_item_def Let_def app body_append_paragraph body_Document
      split: item.split)
  done

lemma app_content_items [app]:
  "body (fold content_item xs doc) =
   body doc @ concat (map (\<lambda>x. emitted (content_item x)) xs)"
  by (rule fold_body) (rule app_content_item)

lemma app_additional_section [app]:
  "body (additional_section x doc) = body doc @ emitted (additional_section x)"
  apply (subst emitted_def)
  apply (simp add: additional_section_def Let_def app body_Document
      split: option.split content.split)
  done

lemma app_experience_entries [app]:
  "body (fold experience_entry xs doc) =
   body doc @ concat (map (\<lambda>x. emitted (experience_entry x)) xs)"
  by (rule fold_body) (rule app_experience_entry)

lemma app_education_entries [app]:
  "body (fold education_entry xs doc) =
   body doc @ concat (map (\<lambda>x. emitted (education_entry x)) xs)"
  by (rule fold_body) (rule app_education_entry)

lemma app_additional_sections [app]:
  "body (fold additional_section xs doc) =
   body doc @ concat (map (\<lambda>x. emitted (additional_section x)) xs)"
  by (rule fold_body) (rule app_additional_section)

lemma app_name_heading [app]:
  "body (name_heading x doc) = body doc @ emitted (name_heading x)"
  apply (subst emitted_def)
  apply (simp add: name_heading_def Let_def app body_Document)
  done

lemma app_contact_line [app]:
  "body (contact_line x doc) = body doc @ emitted (contact_line x)"
  apply (subst emitted_def)
  apply (simp add: contact_line_def Let_def body_append_paragraph body_Document)
  done

lemma app_summary_section [app]:
  "body (summary_section x doc) = body doc @ emitted (summary_section x)"
  apply (subst emitted_def)
  apply (simp add: summary_section_def Let_def app body_Document)
  done

lemma app_experience_section [app]:
  "body (experience_section x doc) = body doc @ emitted (experience_section x)"
  apply (subst emitted_def)
  apply (simp add: experience_section_def Let_def app body_Document)
  done

lemma app_education_section [app]:
  "body (education_section x doc) = body doc @ emitted (education_section x)"
  apply (subst emitted_def)
  apply (simp add: education_section_def Let_def app body_Document)
  done

lemma app_skills_section [app]:
  "body (skills_section x doc) = body doc @ emitted (skills_section x)"
  apply (subst emitted_def)
  apply (simp add: skills_section_def Let_def app body_Document)
  done

lemma app_additional_sections_block [app]:
  "body (additional_sections_block x doc) =
   body doc @ emitted (additional_sections_block x)"
  apply (subst emitted_def)
  apply (simp add: additional_sections_block_def Let_def app body_Document)
  done

lemma body_build_document:
  "body (build_document data) =
     emitted (name_heading data) @ emitted (contact_line data) @
     emitted add_blank @
     emitted (summary_section data) @ emitted (experience_section data) @
     emitted (education_section data) @ emitted (skills_section data) @
     emitted (additional_sections_block data)"
  by (simp add: build_document_def Let_def app body_Document)

subsection \<open>What each stanza appends\<close>

lemma emitted_add_blank: "emitted add_blank = [new_paragraph [] None]"
  by (simp add: emitted_def add_blank_def body_append_paragraph body_Document)

lemma emitted_title_line:
  "emitted (title_line t) =
     [(new_paragraph [] None)\<lparr>p_runs := [set_run_font (add_run t) Calibri 12 True False None]\<rparr>]"
  by (simp add: emitted_def title_line_def Let_def body_append_paragraph body_Document
      new_paragraph_def)

lemma emitted_period_line:
  "emitted (period_line p) =
     (if truthy_str p
      then [(new_paragraph [] None)\<lparr>p_runs :=
              [set_run_font (add_run (the p)) Calibri 10 False True (Some gray)]\<rparr>]
      else [])"
  by (simp add: emitted_def period_line_def Let_def body_append_paragraph body_Document
      new_paragraph_def truthy_str_def dict_get_def split: option.split)

lemma emitted_add_paragraph_with_style:
  "emitted (\<lambda>d. add_paragraph_with_style d t s b c) =
     [(new_paragraph [] None)\<lparr>p_runs := [set_run_font (add_run t) Calibri s b False c]\<rparr>]"
  by (simp add: emitted_def add_paragraph_with_style_def Let_def body_append_paragraph
      body_Document new_paragraph_def)

lemma emitted_add_section_header:
  "emitted (\<lambda>d. add_section_header d t) =
     [(new_paragraph [] None)\<lparr>
        p_runs := [set_run_font (add_run t) Calibri 14 True False (Some (0, 51, 102))],
        p_space_before := Some (Pt 12), p_space_after := Some (Pt 6)\<rparr>]"
  by (simp add: emitted_def add_section_header_def Let_def body_append_paragraph
      body_Document new_paragraph_def)

lemma emitted_add_bullet_point:
  "emitted (\<lambda>d. add_bullet_point d t i) =
     [(new_paragraph t (Some List_Bullet))\<lparr>
        p_left_indent := Some (quarter_inches i),
        p_runs := map (\<lambda>r. set_run_font r Calibri 11 False False None)
                    (p_runs (new_paragraph t (Some List_Bullet)))\<rparr>]"
  by (simp add: emitted_def add_bullet_point_def Let_def body_append_paragraph
      body_Document)

lemma emitted_add_heading:
  "emitted (\<lambda>d. add_heading d t l s b) =
     [(new_paragraph t (Some (Heading l)))\<lparr>
        p_alignment := Some LEFT,
        p_runs := map (\<lambda>r. set_run_font r Calibri s b False None)
                    (p_runs (new_paragraph t (Some (Heading l))))\<rparr>]"
  by (simp add: emitted_def add_heading_def Let_def body_append_paragraph body_Document)

lemma emitted_description_block:
  "emitted (description_block x) =
     (case x of
        None \<Rightarrow> []
      | Some (Str s) \<Rightarrow>
          if s = [] then [] else emitted (\<lambda>d. add_paragraph_with_style d s 11 False None)
      | Some (Lst items) \<Rightarrow>
          concat (map (\<lambda>item. emitted (\<lambda>d. add_bullet_point d item 1)) items))"
  apply (subst emitted_def)
  apply (simp add: description_block_def truthy_tl_def app body_Document
      split: option.split text_or_list.split)
  done

lemma emitted_experience_entry:
  "emitted (experience_entry x) =
     emitted (title_line (dict_get default_position (exp_position x) @ '' | '' @
                          dict_get default_company (exp_company x))) @
     emitted (period_line (exp_period x)) @
     emitted (description_block (exp_description x)) @ emitted add_blank"
  apply (subst emitted_def)
  apply (simp add: experience_entry_def Let_def app body_Document)
  done

lemma emitted_education_entry:
  "emitted (education_entry x) =
     emitted (title_line (dict_get default_degree (edu_degree x) @ '' | '' @
                          dict_get default_school (edu_school x))) @
     emitted (period_line (edu_period x)) @ emitted add_blank"
  apply (subst emitted_def)
  apply (simp add: education_entry_def Let_def app body_Document)
  done

lemma emitted_content_item:
  "emitted (content_item x) =
     (case x of
        Item_dict k v \<Rightarrow>
          [(new_paragraph [] None)\<lparr>p_runs :=
             [set_run_font (add_run (dict_get [] k @ '': '')) Calibri 11 True False None,
              set_run_font (add_run (dict_get [] v)) Calibri 11 False False None]\<rparr>]
      | Item_str s \<Rightarrow> emitted (\<lambda>d. add_bullet_point d s 1))"
  apply (subst emitted_def)
  apply (simp add: content_item_def Let_def app body_append_paragraph body_Document
      new_paragraph_def split: item.split)
  done

lemma emitted_additional_section:
  "emitted (additional_section x) =
     emitted (\<lambda>d. add_section_header d (dict_get default_title (sec_title x))) @
     (case sec_content x of
        Some (Content_list items) \<Rightarrow> concat (map (\<lambda>x. emitted (content_item x)) items)
      | Some (Content_str s) \<Rightarrow> emitted (\<lambda>d. add_paragraph_with_style d s 11 False None)
      | None \<Rightarrow> emitted (\<lambda>d. add_paragraph_with_style d [] 11 False None)) @
     emitted add_blank"
  apply (subst emitted_def)
  apply (simp add: additional_section_def Let_def app body_Document
      split: option.split content.split)
  done

lemma emitted_name_heading:
  "emitted (name_heading x) =
     emitted (\<lambda>d. add_heading d
       (dict_get default_name (pi_name (dict_get empty_personal (personal_info x)))) 1 20 True)"
  apply (subst emitted_def)
  apply (simp add: name_heading_def Let_def app body_Document)
  done

lemma emitted_contact_line:
  "emitted (contact_line x) =
     (let entries = contact_entries (dict_get empty_personal (personal_info x));
          para = new_paragraph (str_join '' | '' entries) None
      in if entries = [] then []
         else [para\<lparr>p_alignment := Some LEFT,
                     p_runs := map (\<lambda>r. set_run_font r Calibri 10 False False (Some gray))
                                 (p_runs para)\<rparr>])"
  by (simp add: emitted_def contact_line_def Let_def body_append_paragraph body_Document)

lemma emitted_summary_section:
  "emitted (summary_section x) =
     (if truthy_str (summary x)
      then emitted (\<lambda>d. add_section_header d header_summary) @
           emitted (\<lambda>d. add_paragraph_with_style d (the (summary x)) 11 False None) @
           emitted add_blank
      else [])"
  apply (subst emitted_def)
  apply (simp add: summary_section_def Let_def app body_Document)
  done

lemma emitted_experience_section:
  "emitted (experience_section x) =
     (if truthy_list (experience x)
      then emitted (\<lambda>d. add_section_header d header_experience) @
           concat (map (\<lambda>e. emitted (experience_entry e)) (the (experience x)))
      else [])"
  apply (subst emitted_def)
  apply (simp add: experience_section_def Let_def app body_Document)
  done

lemma emitted_education_section:
  "emitted (education_section x) =
     (if truthy_list (education x)
      then emitted (\<lambda>d. add_section_header d header_education) @
           concat (map (\<lambda>e. emitted (education_entry e)) (the (education x)))
      else [])"
  apply (subst emitted_def)
  apply (simp add: education_section_def Let_def app body_Document)
  done

lemma emitted_skills_section:
  "emitted (skills_section x) =
     (if truthy_tl (skills x)
      then emitted (\<lambda>d. add_section_header d header_skills) @
           emitted (\<lambda>d. add_paragraph_with_style d
             (case the (skills x) of Lst xs \<Rightarrow> str_join '', '' xs | Str s \<Rightarrow> s)
             11 False None) @
           emitted add_blank
      else [])"
  apply (subst emitted_def)
  apply (simp add: skills_section_def Let_def app body_Document)
  done

lemma emitted_additional_sections_block:
  "emitted (additional_sections_block x) =
     (if truthy_list (additional_sections x)
      then concat (map (\<lambda>s. emitted (additional_section s)) (the (additional_sections x)))
      else [])"
  apply (subst emitted_def)
  apply (simp add: additional_sections_block_def Let_def app body_Document)
  done

subsection \<open>Fonts of the runs\<close>

lemma font_bound_set_run_font: "font_bound f (set_run_font r f s b i c)"
  by (simp add: font_bound_def set_run_font_def Let_def split: option.split)

lemma all_runs_simps:
  "all_runs [] = []"
  "all_runs (p # ps) = p_runs p @ all_runs ps"
  "all_runs (ps @ qs) = all_runs ps @ all_runs qs"
  by (simp_all add: all_runs_def)

lemma fonts_concat:
  assumes "\<And>x. list_all P (all_runs (g x))"
  shows "list_all P (all_runs (concat (map g xs)))"
  by (induction xs) (simp_all add: all_runs_simps assms)

named_theorems fonts \<open>every run a stanza appends has its font bound\<close>

lemma fonts_add_blank [fonts]: "list_all (font_bound Calibri) (all_runs (emitted add_blank))"
  by (simp add: emitted_add_blank all_runs_simps new_paragraph_def)

lemma fonts_title_line [fonts]:
  "list_all (font_bound Calibri) (all_runs (emitted (title_line t)))"
  by (simp add: emitted_title_line all_runs_simps font_bound_set_run_font)

lemma fonts_period_line [fonts]:
  "list_all (font_bound Calibri) (all_runs (emitted (period_line t)))"
  by (simp add: emitted_period_line all_runs_simps font_bound_set_run_font)

lemma fonts_add_paragraph_with_style [fonts]:
  "list_all (font_bound Calibri)
     (all_runs (emitted (\<lambda>d. add_paragraph_with_style d t s b c)))"
  by (simp add: emitted_add_paragraph_with_style all_runs_simps font_bound_set_run_font)

lemma fonts_add_section_header [fonts]:
  "list_all (font_bound Calibri) (all_runs (emitted (\<lambda>d. add_section_header d t)))"
  by (simp add: emitted_add_section_header all_runs_simps font_bound_set_run_font)

lemma fonts_add_bullet_point [fonts]:
  "list_all (font_bound Calibri) (all_runs (emitted (\<lambda>d. add_bullet_point d t i)))"
  by (simp add: emitted_add_bullet_point all_runs_simps font_bound_set_run_font
      new_paragraph_def)

lemma fonts_add_heading [fonts]:
  "list_all (font_bound Calibri) (all_runs (emitted (\<lambda>d. add_heading d t l s b)))"
  by (simp add: emitted_add_heading all_runs_simps font_bound_set_run_font
      new_paragraph_def)

lemma fonts_description_block [fonts]:
  "list_all (font_bound Calibri) (all_runs (emitted (description_block x)))"
  by (simp add: emitted_description_block all_runs_simps fonts fonts_concat
      split: option.split text_or_list.split)

lemma fonts_experience_entry [fonts]:
  "list_all (font_bound Calibri) (all_runs (emitted (experience_entry x)))"
  by (simp add: emitted_experience_entry all_runs_simps fonts)

lemma fonts_education_entry [fonts]:
  "list_all (font_bound Calibri) (all_runs (emitted (education_entry x)))"
  by (simp add: emitted_education_entry all_runs_simps fonts)

lemma fonts_content_item [fonts]:
  "list_all (font_bound Calibri) (all_runs (emitted (content_item x)))"
  by (simp add: emitted_content_item all_runs_simps fonts font_bound_set_run_font
      split: item.split)

lemma fonts_additional_section [fonts]:
  "list_all (font_bound Calibri) (all_runs (emitted (additional_section x)))"
  by (simp add: emitted_additional_section all_runs_simps fonts fonts_concat
      split: option.split content.split)

lemma fonts_name_heading [fonts]:
  "list_all (font_bound Calibri) (all_runs (emitted (name_heading x)))"
  by (simp add: emitted_name_heading fonts)

lemma fonts_contact_line [fonts]:
  "list_all (font_bound Calibri) (all_runs (emitted (contact_line x)))"
  by (simp add: emitted_contact_line Let_def all_runs_simps font_bound_set_run_font
      new_paragraph_def)

lemma fonts_summary_section [fonts]:
  "list_all (font_bound Calibri) (all_runs (emitted (summary_section x)))"
  by (simp add: emitted_summary_section all_runs_simps fonts)

lemma fonts_experience_section [fonts]:
  "list_all (font_bound Calibri) (all_runs (emitted (experience_section x)))"
  by (simp add: emitted_experience_section all_runs_simps fonts fonts_concat)

lemma fonts_education_section [fonts]:
  "list_all (font_bound Calibri) (all_runs (emitted (education_section x)))"
  by (simp add: emitted_education_section all_runs_simps fonts fonts_concat)

lemma fonts_skills_section [fonts]:
  "list_all (font_bound Calibri) (all_runs (emitted (skills_section x)))"
  by (simp add: emitted_skills_section all_runs_simps fonts)

lemma fonts_additional_sections_block [fonts]:
  "list_all (font_bound Calibri) (all_runs (emitted (additional_sections_block x)))"
  by (simp add: emitted_additional_sections_block all_runs_simps fonts fonts_concat)

subsection \<open>Outlines\<close>

lemma outline_simps:
  "outline [] = []"
  "outline (ps @ qs) = outline ps @ outline qs"
  by (simp_all add: outline_def)

lemma outline_concat_Nil:
  assumes "\<And>x. outline (g x) = []"
  shows "outline (concat (map g xs)) = []"
  by (induction xs) (simp_all add: outline_simps assms)

lemma outline_concat_single:
  assumes "\<And>x. outline (g x) = [h x]"
  shows "outline (concat (map g xs)) = map h xs"
  by (induction xs) (simp_all add: outline_simps assms)

named_theorems outl \<open>the outline of what a stanza appends\<close>

lemma outline_add_blank [outl]: "outline (emitted add_blank) = []"
  by (simp add: emitted_add_blank outline_def kind_of_def new_paragraph_def)

lemma outline_title_line [outl]: "outline (emitted (title_line t)) = []"
  by (simp add: emitted_title_line outline_def kind_of_def new_paragraph_def)

lemma outline_period_line [outl]: "outline (emitted (period_line t)) = []"
  by (simp add: emitted_period_line outline_def kind_of_def new_paragraph_def)

lemma outline_add_paragraph_with_style [outl]:
  "outline (emitted (\<lambda>d. add_paragraph_with_style d t s b c)) = []"
  by (simp add: emitted_add_paragraph_with_style outline_def kind_of_def new_paragraph_def)

lemma outline_add_bullet_point [outl]:
  "outline (emitted (\<lambda>d. add_bullet_point d t i)) = []"
  by (simp add: emitted_add_bullet_point outline_def kind_of_def new_paragraph_def)

lemma p_text_set_run_font: "r_text (set_run_font r f s b i c) = r_text r"
  by (simp add: set_run_font_def Let_def split: option.split)

lemma outline_add_section_header [outl]:
  "outline (emitted (\<lambda>d. add_section_header d t)) = [(K_section_header, t)]"
  by (simp add: emitted_add_section_header outline_def kind_of_def new_paragraph_def
      p_text_def p_text_set_run_font add_run_def)

lemma outline_add_heading [outl]:
  "outline (emitted (\<lambda>d. add_heading d t (Suc 0) s b)) = [(K_heading, t)]"
  by (simp add: emitted_add_heading outline_def kind_of_def new_paragraph_def
      p_text_def p_text_set_run_font add_run_def)

lemma outline_description_block [outl]: "outline (emitted (description_block x)) = []"
  by (simp add: emitted_description_block outl outline_simps outline_concat_Nil
      split: option.split text_or_list.split)

lemma outline_experience_entry [outl]: "outline (emitted (experience_entry x)) = []"
  by (simp add: emitted_experience_entry outl outline_simps)

lemma outline_education_entry [outl]: "outline (emitted (education_entry x)) = []"
  by (simp add: emitted_education_entry outl outline_simps)

lemma outline_content_item [outl]: "outline (emitted (content_item x)) = []"
proof (cases x)
  case (Item_dict k v)
  then show ?thesis
    by (simp add: emitted_content_item outline_def kind_of_def new_paragraph_def)
next
  case (Item_str s)
  then show ?thesis
    by (simp add: emitted_content_item outl)
qed

lemma outline_additional_section [outl]:
  "outline (emitted (additional_section x)) =
     [(K_section_header, dict_get default_title (sec_title x))]"
  by (simp add: emitted_additional_section outl outline_simps outline_concat_Nil
      split: option.split content.split)

lemma outline_name_heading [outl]:
  "outline (emitted (name_heading x)) =
     [(K_heading, dict_get default_name (pi_name (dict_get empty_personal (personal_info x))))]"
  by (simp add: emitted_name_heading outl)

lemma outline_contact_line [outl]:
  "outline (emitted (contact_line x)) =
     (let entries = contact_entries (dict_get empty_personal (personal_info x))
      in if entries = [] then [] else [(K_contact, str_join '' | '' entries)])"
  by (simp add: emitted_contact_line Let_def outline_def kind_of_def new_paragraph_def
      p_text_def p_text_set_run_font add_run_def)

lemma outline_summary_section [outl]:
  "outline (emitted (summary_section x)) =
     (if truthy_str (summary x) then [(K_section_header, header_summary)] else [])"
  by (simp add: emitted_summary_section outl outline_simps)

lemma outline_experience_section [outl]:
  "outline (emitted (experience_section x)) =
     (if truthy_list (experience x) then [(K_section_header, header_experience)] else [])"
  by (simp add: emitted_experience_section outl outline_simps outline_concat_Nil)

lemma outline_education_section [outl]:
  "outline (emitted (education_section x)) =
     (if truthy_list (education x) then [(K_section_header, header_education)] else [])"
  by (simp add: emitted_education_section outl outline_simps outline_concat_Nil)

lemma outline_skills_section [outl]:
  "outline (emitted (skills_section x)) =
     (if truthy_tl (skills x) then [(K_section_header, header_skills)] else [])"
  by (simp add: emitted_skills_section outl outline_simps)

lemma outline_additional_sections_block [outl]:
  "outline (emitted (additional_sections_block x)) =
     (if truthy_list (additional_sections x)
      then map (\<lambda>s. (K_section_header, dict_get default_title (sec_title s)))
             (the (additional_sections x))
      else [])"
  by (simp add: emitted_additional_sections_block outline_simps
      outline_concat_single [where h = "\<lambda>s. (K_section_header, dict_get default_title (sec_title s))"]
      outl)

lemma outline_build_document:
  "outline (body (build_document x)) =
     outline (emitted (name_heading x)) @ outline (emitted (contact_line x)) @
     outline (emitted (summary_section x)) @ outline (emitted (experience_section x)) @
     outline (emitted (education_section x)) @ outline (emitted (skills_section x)) @
     outline (emitted (additional_sections_block x))"
  by (simp add: body_build_document outline_simps outline_add_blank)

subsection \<open>Texts and kinds of the appended paragraphs\<close>

lemma text_title_line: "map p_text (emitted (title_line t)) = [t]"
  by (simp add: emitted_title_line p_text_def p_text_set_run_font add_run_def)

lemma text_period_line:
  "map p_text (emitted (period_line p)) = (if truthy_str p then [the p] else [])"
  by (simp add: emitted_period_line p_text_def p_text_set_run_font add_run_def)

lemma text_add_blank: "map p_text (emitted add_blank) = [[]]"
  by (simp add: emitted_add_blank p_text_def new_paragraph_def)

lemma text_add_paragraph_with_style:
  "map p_text (emitted (\<lambda>d. add_paragraph_with_style d t s b c)) = [t]"
  by (simp add: emitted_add_paragraph_with_style p_text_def p_text_set_run_font add_run_def)

lemma text_add_bullet_point:
  "map p_text (emitted (\<lambda>d. add_bullet_point d t i)) = [t]"
  by (simp add: emitted_add_bullet_point p_text_def p_text_set_run_font add_run_def
      new_paragraph_def)

lemma text_bullets:
  "map p_text (concat (map (\<lambda>item. emitted (\<lambda>d. add_bullet_point d item i)) items)) = items"
  by (induction items) (simp_all add: text_add_bullet_point)

lemma bullet_add_bullet_point:
  "list_all is_bullet (emitted (\<lambda>d. add_bullet_point d t i))"
  by (simp add: emitted_add_bullet_point is_bullet_def new_paragraph_def)

lemma indented_add_bullet_point:
  "list_all is_indented (emitted (\<lambda>d. add_bullet_point d t (Suc 0)))"
  by (simp add: emitted_add_bullet_point is_indented_def quarter_inches_def)

lemma bullet_bullets:
  "list_all is_bullet (concat (map (\<lambda>item. emitted (\<lambda>d. add_bullet_point d item i)) items))"
  by (induction items) (simp_all add: bullet_add_bullet_point)

lemma indented_bullets:
  "list_all is_indented
     (concat (map (\<lambda>item. emitted (\<lambda>d. add_bullet_point d item (Suc 0))) items))"
  by (induction items) (simp_all add: indented_add_bullet_point)

lemma not_bullet_title_line: "filter is_bullet (emitted (title_line t)) = []"
  by (simp add: emitted_title_line is_bullet_def new_paragraph_def)

lemma not_bullet_period_line: "filter is_bullet (emitted (period_line p)) = []"
  by (simp add: emitted_period_line is_bullet_def new_paragraph_def)

lemma not_bullet_add_blank: "filter is_bullet (emitted add_blank) = []"
  by (simp add: emitted_add_blank is_bullet_def new_paragraph_def)

lemma not_bullet_add_paragraph_with_style:
  "list_all (\<lambda>p. \<not> is_bullet p) (emitted (\<lambda>d. add_paragraph_with_style d t s b c))"
  by (simp add: emitted_add_paragraph_with_style is_bullet_def new_paragraph_def)

lemma italic_set_run_font: "r_italic (set_run_font r f s b i c) = Some i"
  by (simp add: set_run_font_def Let_def split: option.split)

lemma period_title_line: "filter is_period_line (emitted (title_line t)) = []"
  by (simp add: emitted_title_line is_period_line_def italic_set_run_font)

lemma period_period_line:
  "filter is_period_line (emitted (period_line p)) = emitted (period_line p)"
  by (simp add: emitted_period_line is_period_line_def italic_set_run_font)

lemma period_add_blank: "filter is_period_line (emitted add_blank) = []"
  by (simp add: emitted_add_blank is_period_line_def new_paragraph_def)

lemma period_add_bullet_point:
  "filter is_period_line (emitted (\<lambda>d. add_bullet_point d t i)) = []"
  by (simp add: emitted_add_bullet_point is_period_line_def italic_set_run_font
      new_paragraph_def)

lemma period_bullets:
  "filter is_period_line
     (concat (map (\<lambda>item. emitted (\<lambda>d. add_bullet_point d item i)) items)) = []"
  by (induction items) (simp_all add: period_add_bullet_point)

lemma period_description_block:
  "filter is_period_line (emitted (description_block x)) = []"
  by (simp add: emitted_description_block period_bullets emitted_add_paragraph_with_style
      is_period_line_def italic_set_run_font split: option.split text_or_list.split)

lemma default_texts: "default_position \<noteq> []" "default_company \<noteq> []"
  by (simp_all add: default_position_def default_company_def)

subsection \<open>Runs of the process\<close>

lemma str_endswith_iff: "str_endswith s suf \<longleftrightarrow> suffix suf s"
proof
  assume "str_endswith s suf"
  then have "s = take (length s - length suf) s @ suf"
    by (metis append_take_drop_id str_endswith_def)
  then show "suffix suf s"
    by (metis suffixI)
next
  assume "suffix suf s"
  then show "str_endswith s suf"
    by (auto simp: suffix_def str_endswith_def)
qed

lemma generate_resume_missing:
  "fs data_file = None \<Longrightarrow>
   generate_resume e fs data_file out =
     (Sys_exit 1, [msg_error_file @ data_file @ msg_not_found, msg_create_file], fs)"
  by (simp add: generate_resume_def)

lemma generate_resume_loaded:
  "fs data_file = Some content \<Longrightarrow> json_load e content = Loaded data \<Longrightarrow>
   generate_resume e fs data_file out =
     (Returns (), [msg_created @ out], fs(out \<mapsto> docx_bytes e (build_document data)))"
  by (simp add: generate_resume_def)

lemma files_after_main:
  "files_after (main e fs a) =
     snd (snd (generate_resume e fs (arg_input a) (output_path (arg_output a))))"
  by (simp add: main_def Let_def split: prod.split result.split exn.split)

lemma printed_map_Print: "printed (map Print xs) = xs"
  by (induction xs) simp_all

lemma attempts_map_Print: "attempts (map Print xs) = []"
  by (induction xs) simp_all

lemma attempts_append: "attempts (xs @ ys) = attempts xs @ attempts ys"
  by (induction xs rule: attempts.induct) simp_all

section \<open>The claims\<close>

text \<open>
  C1, as amended. When summary, experience, education, skills and additional sections
  are all populated, the outline of the document is, in this order: the one name heading;
  the contact line, once when \<open>personal_info\<close> holds a non-empty contact field and not at
  all otherwise; one section header each for summary, experience, education and skills;
  and one section header for each entry of the additional sections.
\<close>

theorem blocks_in_fixed_order:
  assumes "truthy_str (summary d)" and "truthy_list (experience d)"
    and "truthy_list (education d)" and "truthy_tl (skills d)"
    and "truthy_list (additional_sections d)"
  shows "outline (body (build_document d)) =
     [(K_heading, dict_get default_name
                    (pi_name (dict_get empty_personal (personal_info d))))] @
     (if contact_entries (dict_get empty_personal (personal_info d)) = [] then []
      else [(K_contact,
             str_join '' | '' (contact_entries (dict_get empty_personal (personal_info d))))]) @
     [(K_section_header, header_summary), (K_section_header, header_experience),
      (K_section_header, header_education), (K_section_header, header_skills)] @
     map (\<lambda>s. (K_section_header, dict_get default_title (sec_title s)))
       (the (additional_sections d))"
  using assms by (simp add: outline_build_document outl Let_def)

theorem blocks_in_fixed_order_sample:
  "outline (body (build_document sample_full)) =
     [(K_heading, ''Ann Lee''),
      (K_contact, label_email @ ''ann@example.org | '' @ label_location @ ''Riga | '' @
                  label_github @ ''annlee''),
      (K_section_header, header_summary), (K_section_header, header_experience),
      (K_section_header, header_education), (K_section_header, header_skills),
      (K_section_header, ''Languages''), (K_section_header, default_title)]"
  using blocks_in_fixed_order [of sample_full]
  by (simp add: sample_full_def truthy_str_def truthy_list_def truthy_tl_def dict_get_def
      contact_entries_def)

text \<open>
  C1 as stated fails: in \<open>sample_name_only\<close> all six top-level fields are populated,
  \<open>personal_info\<close> with a name, and the document has no contact line.
\<close>

theorem name_only_record_has_no_contact_line:
  "personal_info sample_name_only \<noteq> None \<and>
   truthy_str (summary sample_name_only) \<and> truthy_list (experience sample_name_only) \<and>
   truthy_list (education sample_name_only) \<and> truthy_tl (skills sample_name_only) \<and>
   truthy_list (additional_sections sample_name_only) \<and>
   count_list (map fst (outline (body (build_document sample_name_only)))) K_contact = 0"
  by (simp add: outline_build_document outl Let_def sample_name_only_def sample_full_def
      truthy_str_def truthy_list_def truthy_tl_def dict_get_def contact_entries_def
      empty_personal_def)

text \<open>
  C2, as amended. An experience entry appends its title line, its period line, the
  paragraphs of its description and a blank paragraph. The description paragraphs are:
  for a list of strings, one bullet paragraph per element, indented, with the element as
  its text, in the order of the list, and they are all the bullet paragraphs of the entry;
  for a non-empty string, one paragraph that is no bullet and has the string as its text;
  for the empty string, as for a missing description, none.
\<close>

theorem description_paragraphs:
  "emitted (experience_entry e) =
     emitted (title_line (dict_get default_position (exp_position e) @ '' | '' @
                          dict_get default_company (exp_company e))) @
     emitted (period_line (exp_period e)) @
     emitted (description_block (exp_description e)) @ emitted add_blank \<and>
   filter is_bullet (emitted (experience_entry e)) =
     filter is_bullet (emitted (description_block (exp_description e))) \<and>
   (case exp_description e of
      Some (Lst items) \<Rightarrow>
        map p_text (emitted (description_block (exp_description e))) = items \<and>
        list_all is_bullet (emitted (description_block (exp_description e))) \<and>
        list_all is_indented (emitted (description_block (exp_description e)))
    | Some (Str s) \<Rightarrow>
        if s = [] then emitted (description_block (exp_description e)) = []
        else map p_text (emitted (description_block (exp_description e))) = [s] \<and>
             list_all (\<lambda>p. \<not> is_bullet p) (emitted (description_block (exp_description e)))
    | None \<Rightarrow> emitted (description_block (exp_description e)) = [])"
proof -
  have "filter is_bullet (emitted (experience_entry e)) =
        filter is_bullet (emitted (description_block (exp_description e)))"
    by (simp add: emitted_experience_entry not_bullet_title_line not_bullet_period_line
        not_bullet_add_blank)
  moreover have "case exp_description e of
      Some (Lst items) \<Rightarrow>
        map p_text (emitted (description_block (exp_description e))) = items \<and>
        list_all is_bullet (emitted (description_block (exp_description e))) \<and>
        list_all is_indented (emitted (description_block (exp_description e)))
    | Some (Str s) \<Rightarrow>
        if s = [] then emitted (description_block (exp_description e)) = []
        else map p_text (emitted (description_block (exp_description e))) = [s] \<and>
             list_all (\<lambda>p. \<not> is_bullet p) (emitted (description_block (exp_description e)))
    | None \<Rightarrow> emitted (description_block (exp_description e)) = []"
    by (simp add: emitted_description_block text_bullets bullet_bullets indented_bullets
        text_add_paragraph_with_style not_bullet_add_paragraph_with_style
        split: option.split text_or_list.split)
  ultimately show ?thesis
    by (simp add: emitted_experience_entry)
qed

theorem description_paragraphs_sample:
  "map p_text (filter is_bullet (emitted (experience_entry
     \<lparr>exp_position = Some ''Developer'', exp_company = Some ''Acme'',
      exp_period = Some ''2020-2024'',
      exp_description = Some (Lst [''Built it'', ''Ran it''])\<rparr>))) = [''Built it'', ''Ran it''] \<and>
   map p_text (emitted (description_block (Some (Str ''Odd jobs'')))) = [''Odd jobs'']"
  using description_paragraphs [of "\<lparr>exp_position = Some ''Developer'',
      exp_company = Some ''Acme'', exp_period = Some ''2020-2024'',
      exp_description = Some (Lst [''Built it'', ''Ran it''])\<rparr>"]
    description_paragraphs [of "\<lparr>exp_position = None, exp_company = None,
      exp_period = None, exp_description = Some (Str ''Odd jobs'')\<rparr>"]
  by (simp add: filter_id_conv list_all_iff not_bullet_title_line not_bullet_period_line
      not_bullet_add_blank)

text \<open>
  C2 as stated fails: an entry whose description is the empty string gets no description
  paragraph; it appends its title line and the blank paragraph, exactly as the same entry
  without a description does.
\<close>

theorem empty_description_emits_no_paragraph:
  "exp_description sample_empty_description = Some (Str []) \<and>
   emitted (description_block (exp_description sample_empty_description)) = [] \<and>
   map p_text (emitted (experience_entry sample_empty_description)) =
     [''Developer | Acme'', []] \<and>
   emitted (experience_entry sample_empty_description) =
     emitted (experience_entry (sample_empty_description\<lparr>exp_description := None\<rparr>))"
  by (simp add: sample_empty_description_def emitted_experience_entry
      emitted_description_block emitted_period_line text_title_line text_add_blank
      truthy_str_def dict_get_def)

text \<open>
  C3. The contact entries are the contact fields that are present with a non-empty
  value, each behind its label, in the order email, phone, location, LinkedIn, GitHub.
  The contact stanza appends nothing when there is no entry, and otherwise one paragraph
  whose text is the entries joined: the first entry, then each further entry behind one
  separator \<open>' | '\<close>. The document has one paragraph more than the document of the same
  record without \<open>personal_info\<close> when there is an entry, and as many when there is none.
\<close>

theorem contact_line_joins_present_fields:
  "contact_entries (dict_get empty_personal (personal_info d)) =
     map (\<lambda>(label, v). label @ the v)
       (filter (\<lambda>(label, v). truthy_str v)
         [(label_email, pi_email (dict_get empty_personal (personal_info d))),
          (label_phone, pi_phone (dict_get empty_personal (personal_info d))),
          (label_location, pi_location (dict_get empty_personal (personal_info d))),
          (label_linkedin, pi_linkedin (dict_get empty_personal (personal_info d))),
          (label_github, pi_github (dict_get empty_personal (personal_info d)))]) \<and>
   map p_text (emitted (contact_line d)) =
     (case contact_entries (dict_get empty_personal (personal_info d)) of
        [] \<Rightarrow> []
      | x # xs \<Rightarrow> [x @ concat (map (\<lambda>y. '' | '' @ y) xs)]) \<and>
   length (body (build_document d)) =
     length (body (build_document (d\<lparr>personal_info := None\<rparr>))) +
     (if contact_entries (dict_get empty_personal (personal_info d)) = [] then 0 else 1)"
proof -
  have join: "str_join '' | '' (x # xs) = x @ concat (map (\<lambda>y. '' | '' @ y) xs)" for x xs
    by (induction xs arbitrary: x) simp_all
  have entries: "contact_entries p =
     map (\<lambda>(label, v). label @ the v)
       (filter (\<lambda>(label, v). truthy_str v)
         [(label_email, pi_email p), (label_phone, pi_phone p),
          (label_location, pi_location p), (label_linkedin, pi_linkedin p),
          (label_github, pi_github p)])" for p
    by (simp add: contact_entries_def Let_def)
  have "map p_text (emitted (contact_line d)) =
     (case contact_entries (dict_get empty_personal (personal_info d)) of
        [] \<Rightarrow> []
      | x # xs \<Rightarrow> [str_join '' | '' (x # xs)])"
    by (simp add: emitted_contact_line Let_def p_text_def new_paragraph_def
        p_text_set_run_font add_run_def split: list.split)
  then have joined: "map p_text (emitted (contact_line d)) =
     (case contact_entries (dict_get empty_personal (personal_info d)) of
        [] \<Rightarrow> []
      | x # xs \<Rightarrow> [x @ concat (map (\<lambda>y. '' | '' @ y) xs)])"
    by (simp only: join)
  have heading: "length (emitted (name_heading x)) = 1" for x
    by (simp add: emitted_name_heading emitted_add_heading)
  have one: "length (emitted (contact_line d)) =
     (if contact_entries (dict_get empty_personal (personal_info d)) = [] then 0 else 1)"
    by (simp add: emitted_contact_line Let_def)
  have none: "emitted (contact_line (d\<lparr>personal_info := None\<rparr>)) = []"
    by (simp add: emitted_contact_line Let_def dict_get_def contact_entries_def
        empty_personal_def truthy_str_def)
  have "length (body (build_document d)) =
     length (body (build_document (d\<lparr>personal_info := None\<rparr>))) +
     (if contact_entries (dict_get empty_personal (personal_info d)) = [] then 0 else 1)"
    by (simp add: body_build_document heading one none emitted_summary_section
        emitted_experience_section emitted_education_section emitted_skills_section
        emitted_additional_sections_block)
  with entries joined show ?thesis
    by blast
qed

theorem contact_line_joins_present_fields_sample:
  "map p_text (emitted (contact_line sample_full)) =
     [label_email @ ''ann@example.org | '' @ label_location @ ''Riga | '' @
      label_github @ ''annlee''] \<and>
   emitted (contact_line sample_name_only) = [] \<and>
   length (body (build_document sample_full)) =
     length (body (build_document sample_name_only)) + 1"
proof -
  have same: "build_document (sample_name_only\<lparr>personal_info := None\<rparr>) =
              build_document (sample_full\<lparr>personal_info := None\<rparr>)"
    by (simp add: sample_name_only_def)
  have none: "contact_entries (dict_get empty_personal (personal_info sample_name_only)) = []"
    by (simp add: sample_name_only_def dict_get_def contact_entries_def empty_personal_def
        truthy_str_def)
  have some: "contact_entries (dict_get empty_personal (personal_info sample_full)) =
     [label_email @ ''ann@example.org'', label_location @ ''Riga'', label_github @ ''annlee'']"
    by (simp add: sample_full_def dict_get_def contact_entries_def truthy_str_def)
  have "map p_text (emitted (contact_line sample_full)) =
     (case contact_entries (dict_get empty_personal (personal_info sample_full)) of
        [] \<Rightarrow> []
      | x # xs \<Rightarrow> [x @ concat (map (\<lambda>y. '' | '' @ y) xs)])"
    using contact_line_joins_present_fields [of sample_full] by blast
  then have joined: "map p_text (emitted (contact_line sample_full)) =
     [label_email @ ''ann@example.org | '' @ label_location @ ''Riga | '' @
      label_github @ ''annlee'']"
    by (simp add: some)
  have "length (body (build_document sample_full)) =
     length (body (build_document (sample_full\<lparr>personal_info := None\<rparr>))) +
     (if contact_entries (dict_get empty_personal (personal_info sample_full)) = [] then 0
      else 1)"
    using contact_line_joins_present_fields [of sample_full] by blast
  moreover have "length (body (build_document sample_name_only)) =
     length (body (build_document (sample_name_only\<lparr>personal_info := None\<rparr>))) +
     (if contact_entries (dict_get empty_personal (personal_info sample_name_only)) = []
      then 0 else 1)"
    using contact_line_joins_present_fields [of sample_name_only] by blast
  ultimately have len: "length (body (build_document sample_full)) =
     length (body (build_document sample_name_only)) + 1"
    by (simp add: same none some)
  have "emitted (contact_line sample_name_only) = []"
    by (simp add: emitted_contact_line none)
  with joined len show ?thesis
    by blast
qed

text \<open>
  C4, as amended. Every experience entry starts with its position and company line: the
  position, or the placeholder when the key is missing, the separator, and the company,
  or its placeholder; both placeholders are non-empty, so the line renders even when
  both keys are missing. The period has no placeholder: the only period line of the
  entry is the one for a non-empty period, and an entry with a missing or empty period
  has none.
\<close>

theorem position_company_line_always_renders:
  "map p_text (take 1 (emitted (experience_entry e))) =
     [(case exp_position e of None \<Rightarrow> default_position | Some p \<Rightarrow> p) @ '' | '' @
      (case exp_company e of None \<Rightarrow> default_company | Some c \<Rightarrow> c)] \<and>
   default_position \<noteq> [] \<and> default_company \<noteq> [] \<and>
   map p_text (filter is_period_line (emitted (experience_entry e))) =
     (if truthy_str (exp_period e) then [the (exp_period e)] else [])"
proof -
  have "map p_text (take 1 (emitted (experience_entry e))) =
     [(case exp_position e of None \<Rightarrow> default_position | Some p \<Rightarrow> p) @ '' | '' @
      (case exp_company e of None \<Rightarrow> default_company | Some c \<Rightarrow> c)]"
    by (simp add: emitted_experience_entry emitted_title_line p_text_def
        p_text_set_run_font add_run_def dict_get_def)
  moreover have "map p_text (filter is_period_line (emitted (experience_entry e))) =
     (if truthy_str (exp_period e) then [the (exp_period e)] else [])"
    by (simp add: emitted_experience_entry period_title_line period_period_line
        period_add_blank period_description_block text_period_line)
  ultimately show ?thesis
    by (simp add: default_texts)
qed

theorem position_company_line_always_renders_sample:
  "map p_text (take 1 (emitted (experience_entry sample_bare_entry))) =
     [default_position @ '' | '' @ default_company] \<and>
   map p_text (filter is_period_line (emitted (experience_entry
     (sample_bare_entry\<lparr>exp_period := Some ''2020-2024''\<rparr>)))) = [''2020-2024'']"
  using position_company_line_always_renders [of sample_bare_entry]
    position_company_line_always_renders
      [of "sample_bare_entry\<lparr>exp_period := Some ''2020-2024''\<rparr>"]
  by (simp add: sample_bare_entry_def truthy_str_def)

text \<open>
  C4 as stated fails for the period: an entry with no key at all appends its title line
  and the blank paragraph, and no period line.
\<close>

theorem missing_period_line_is_omitted:
  "exp_period sample_bare_entry = None \<and>
   filter is_period_line (emitted (experience_entry sample_bare_entry)) = [] \<and>
   map p_text (emitted (experience_entry sample_bare_entry)) =
     [default_position @ '' | '' @ default_company, []]"
  by (simp add: sample_bare_entry_def emitted_experience_entry emitted_description_block
      emitted_period_line period_title_line period_add_blank text_title_line
      text_add_blank truthy_str_def dict_get_def)

text \<open>
  C5. When the input path does not exist, the process prints the two lines that name the
  missing file and say what to create, exits with status 1, and leaves the file system
  as it was: no output document is written.
\<close>

theorem missing_input_exits_without_output:
  assumes "fs (arg_input a) = None"
  shows "exit_status (main e fs a) = Exit 1 \<and>
         printed (trace (main e fs a)) =
           [msg_error_file @ arg_input a @ msg_not_found, msg_create_file] \<and>
         files_after (main e fs a) = fs"
  using assms
  by (simp add: main_def Let_def generate_resume_missing printed_map_Print)

theorem missing_input_exits_without_output_sample:
  "exit_status (main sample_env Map.empty sample_args) = Exit 1 \<and>
   printed (trace (main sample_env Map.empty sample_args)) =
     [msg_error_file @ ''resume_data.json'' @ msg_not_found, msg_create_file] \<and>
   files_after (main sample_env Map.empty sample_args) ''cv.docx'' = None"
  using missing_input_exits_without_output [of Map.empty sample_args sample_env]
  by (simp add: sample_args_def)

text \<open>
  C6. The output path is the given name when that ends in \<open>.docx\<close>, and the name with
  \<open>.docx\<close> appended otherwise; either way it ends in \<open>.docx\<close>, and computing it again
  changes nothing, so the extension is appended once. When the input file is there and
  parses, the process leaves the serialised document at that path.
\<close>

theorem extension_appended_once:
  assumes "fs (arg_input a) = Some content" and "json_load e content = Loaded data"
  shows "output_path out = (if suffix ''.docx'' out then out else out @ ''.docx'') \<and>
         suffix ''.docx'' (output_path out) \<and>
         output_path (output_path out) = output_path out \<and>
         files_after (main e fs a) (output_path (arg_output a)) =
           Some (docx_bytes e (build_document data)) \<and>
         files_after (main e fs a) =
           fs(output_path (arg_output a) \<mapsto> docx_bytes e (build_document data))"
proof -
  have path: "output_path p = (if suffix ''.docx'' p then p else p @ ''.docx'')" for p
    by (simp add: output_path_def Let_def str_endswith_iff)
  have ends: "suffix ''.docx'' (output_path p)" for p
    by (simp add: path suffix_def)
  have "files_after (main e fs a) =
          fs(output_path (arg_output a) \<mapsto> docx_bytes e (build_document data))"
    using assms by (simp add: files_after_main generate_resume_loaded)
  then show ?thesis
    using ends by (simp add: path)
qed

theorem extension_appended_once_sample:
  "output_path ''cv'' = ''cv.docx'' \<and> output_path ''cv.docx'' = ''cv.docx'' \<and>
   files_after (main sample_env sample_files sample_args) ''cv.docx'' = Some ''PK''"
proof -
  have a: "sample_files (arg_input sample_args) = Some ''{...}''"
    by (simp add: sample_files_def sample_args_def)
  have b: "json_load sample_env ''{...}'' = Loaded sample_full"
    by (simp add: sample_env_def)
  have c: "\<not> suffix ''.docx'' ''cv''"
    by (simp add: suffix_def)
  have d: "suffix ''.docx'' ''cv.docx''"
    by (simp add: suffix_def)
  show ?thesis
    using a b c d
      extension_appended_once [where fs = sample_files and a = sample_args
        and e = sample_env and content = "''{...}''" and data = sample_full
        and out = "''cv''"]
      extension_appended_once [where fs = sample_files and a = sample_args
        and e = sample_env and content = "''{...}''" and data = sample_full
        and out = "''cv.docx''"]
    by (simp add: sample_args_def sample_env_def)
qed

text \<open>
  The steps of the PDF bridge, for every run. The bridge starts exactly when the document
  was written and a PDF was asked for. It looks the engine up, runs the container when
  the engine was found, and then either stops or goes on to the fallback: the import of
  the library and, when that succeeds, its call. So the steps go strictly forward, each is
  taken at most once, and the fallback never comes before the container attempt. The
  fallback starts when the container attempt has failed, and also when the container has
  exited with status 0 and the renaming of its output has raised \<open>FileNotFoundError\<close>.
\<close>

lemma bridge_steps:
  "attempts (trace (main e fs a)) =
     (if loads e fs (arg_input a) \<and> arg_pdf a then
        Which_docker #
        (if which_docker e
         then [Subprocess_run (dict_get ''linuxserver/libreoffice:latest'' (environ_image e))
                 (abspath e (output_path (arg_output a)))]
         else []) @
        (if container_failed e \<or>
            which_docker e \<and> docker_run e = Run_ok \<and> relocate e = Relocate_FileNotFoundError
         then Import_docx2pdf #
              (if import_docx2pdf e = Import_ok
               then [Docx2pdf_convert (output_path (arg_output a))
                       (str_replace ''.docx'' ''.pdf'' (output_path (arg_output a)))]
               else [])
         else [])
      else [])"
  by (simp add: main_def generate_resume_def convert_docx_to_pdf_docker_def fallback_def
      Let_def attempts_map_Print attempts_append loads_def container_failed_def
      split: option.split load_result.split run_outcome.split relocate_outcome.split
        import_outcome.split convert_outcome.split)

lemma bridge_steps_forward:
  "sorted_wrt (<) (map phase (attempts (trace (main e fs a))))"
  by (auto simp: bridge_steps)

text \<open>
  C7. The code starts the fallback after a container attempt that has not failed. The
  command line asks for \<open>out.docx.d/cv.docx\<close> and a PDF, so the path of the PDF is
  \<open>out.pdf.d/cv.pdf\<close>. The engine is found and the container exits with status 0, which
  is no failure of the container attempt; the renaming of its output into the missing
  directory raises \<open>FileNotFoundError\<close>, the handler for a missing engine reports
  that Docker was not found, and the process goes on to the fallback.
\<close>

theorem fallback_starts_after_container_success:
  "which_docker sample_env_rename_fails \<and>
   docker_run sample_env_rename_fails = Run_ok \<and>
   \<not> container_failed sample_env_rename_fails \<and>
   str_replace ''.docx'' ''.pdf'' ''out.docx.d/cv.docx'' = ''out.pdf.d/cv.pdf'' \<and>
   attempts (trace (main sample_env_rename_fails sample_files sample_args_subdir)) =
     [Which_docker,
      Subprocess_run ''linuxserver/libreoffice:latest'' ''/home/ann/out.docx.d/cv.docx'',
      Import_docx2pdf,
      Docx2pdf_convert ''out.docx.d/cv.docx'' ''out.pdf.d/cv.pdf''] \<and>
   printed (trace (main sample_env_rename_fails sample_files sample_args_subdir)) =
     [msg_created @ ''out.docx.d/cv.docx'', msg_docker_failed @ err_docker_not_found,
      msg_trying_fallback, msg_pdf_created @ ''out.pdf.d/cv.pdf''] \<and>
   exit_status (main sample_env_rename_fails sample_files sample_args_subdir) = Exit 0"
proof -
  have path: "output_path ''out.docx.d/cv.docx'' = ''out.docx.d/cv.docx''"
    by (simp add: output_path_def str_endswith_def)
  have pdf: "str_replace ''.docx'' ''.pdf'' ''out.docx.d/cv.docx'' = ''out.pdf.d/cv.pdf''"
    by simp
  have env: "which_docker sample_env_rename_fails"
    "docker_run sample_env_rename_fails = Run_ok"
    "relocate sample_env_rename_fails = Relocate_FileNotFoundError"
    "import_docx2pdf sample_env_rename_fails = Import_ok"
    "docx2pdf_convert sample_env_rename_fails = Convert_ok"
    "environ_image sample_env_rename_fails = None"
    "abspath sample_env_rename_fails ''out.docx.d/cv.docx'' = ''/home/ann/out.docx.d/cv.docx''"
    "json_load sample_env_rename_fails ''{...}'' = Loaded sample_full"
    by (simp_all add: sample_env_rename_fails_def sample_env_def)
  have ok: "\<not> container_failed sample_env_rename_fails"
    by (simp add: container_failed_def env)
  have steps: "attempts (trace (main sample_env_rename_fails sample_files sample_args_subdir)) =
     [Which_docker,
      Subprocess_run ''linuxserver/libreoffice:latest'' ''/home/ann/out.docx.d/cv.docx'',
      Import_docx2pdf,
      Docx2pdf_convert ''out.docx.d/cv.docx'' ''out.pdf.d/cv.pdf'']"
    by (simp add: bridge_steps loads_def sample_files_def sample_args_subdir_def env path pdf
        dict_get_def del: str_replace.simps)
  have run: "printed (trace (main sample_env_rename_fails sample_files sample_args_subdir)) =
     [msg_created @ ''out.docx.d/cv.docx'', msg_docker_failed @ err_docker_not_found,
      msg_trying_fallback, msg_pdf_created @ ''out.pdf.d/cv.pdf''] \<and>
     exit_status (main sample_env_rename_fails sample_files sample_args_subdir) = Exit 0"
    by (simp add: main_def generate_resume_def convert_docx_to_pdf_docker_def fallback_def
        Let_def sample_files_def sample_args_subdir_def env path pdf dict_get_def
        del: str_replace.simps)
  from env(1,2) ok pdf steps run show ?thesis
    by blast
qed

text \<open>
  C8. When the document has been written, a PDF was asked for, the container engine is not
  found and the fallback library cannot be imported, the process exits with status 1.
  After the line about the written document it prints that the container attempt failed,
  that it tries the fallback, and the guidance: what is needed, the line that ends in the
  command pulling the container image, and the line that ends in the command installing
  the fallback library.
\<close>

theorem no_converter_exits_with_guidance:
  assumes "loads e fs (arg_input a)" and "arg_pdf a"
    and "\<not> which_docker e" and "import_docx2pdf e = Import_ImportError"
  shows "exit_status (main e fs a) = Exit 1 \<and>
         printed (trace (main e fs a)) =
           [msg_created @ output_path (arg_output a), msg_docker_failed @ err_no_docker,
            msg_trying_fallback, msg_pdf_needs, msg_install_docker, msg_install_docx2pdf] \<and>
         suffix ''Docker '' (take 33 msg_install_docker) \<and>
         suffix ''docker pull linuxserver/libreoffice:latest'' msg_install_docker \<and>
         suffix ''pip install docx2pdf'' msg_install_docx2pdf"
proof -
  have run: "exit_status (main e fs a) = Exit 1 \<and>
         printed (trace (main e fs a)) =
           [msg_created @ output_path (arg_output a), msg_docker_failed @ err_no_docker,
            msg_trying_fallback, msg_pdf_needs, msg_install_docker, msg_install_docx2pdf]"
    using assms
    by (simp add: main_def generate_resume_def convert_docx_to_pdf_docker_def fallback_def
        Let_def loads_def split: option.splits load_result.splits)
  have "str_endswith (take 33 msg_install_docker) ''Docker ''"
    by (simp add: msg_install_docker_def str_endswith_def)
  moreover have "str_endswith msg_install_docker ''docker pull linuxserver/libreoffice:latest''"
    by (simp add: msg_install_docker_def str_endswith_def)
  moreover have "str_endswith msg_install_docx2pdf ''pip install docx2pdf''"
    by (simp add: msg_install_docx2pdf_def str_endswith_def)
  ultimately show ?thesis
    using run by (simp add: str_endswith_iff)
qed

theorem no_converter_exits_with_guidance_sample:
  "exit_status (main sample_env sample_files sample_args) = Exit 1 \<and>
   printed (trace (main sample_env sample_files sample_args)) =
     [msg_created @ ''cv.docx'', msg_docker_failed @ err_no_docker,
      msg_trying_fallback, msg_pdf_needs, msg_install_docker, msg_install_docx2pdf]"
proof -
  have "loads sample_env sample_files (arg_input sample_args)"
    by (simp add: loads_def sample_env_def sample_files_def sample_args_def)
  moreover have "arg_pdf sample_args" "\<not> which_docker sample_env"
    "import_docx2pdf sample_env = Import_ImportError"
    by (simp_all add: sample_env_def sample_args_def)
  moreover have "output_path (arg_output sample_args) = ''cv.docx''"
    by (simp add: output_path_def str_endswith_def sample_args_def)
  ultimately show ?thesis
    using no_converter_exits_with_guidance [of sample_env sample_files sample_args]
    by simp
qed

text \<open>
  C9. Every run of the assembled document has the chosen font, Calibri, bound in the
  East-Asian slot as well as in the Latin slot, whatever the record holds.
\<close>

theorem every_run_binds_east_asian_font:
  "list_all (font_bound Calibri) (all_runs (body (build_document data)))"
  by (simp add: body_build_document all_runs_simps fonts)

theorem every_run_binds_east_asian_font_sample:
  "length (all_runs (body (build_document sample_full))) = 22 \<and>
   list_all (font_bound Calibri) (all_runs (body (build_document sample_full)))"
  using every_run_binds_east_asian_font [of sample_full]
  by (simp add: body_build_document all_runs_simps sample_full_def emitted_name_heading
      emitted_contact_line emitted_add_blank emitted_summary_section
      emitted_experience_section emitted_education_section emitted_skills_section
      emitted_additional_sections_block emitted_experience_entry emitted_education_entry
      emitted_additional_section emitted_content_item emitted_description_block
      emitted_title_line emitted_period_line emitted_add_heading emitted_add_bullet_point
      emitted_add_section_header emitted_add_paragraph_with_style new_paragraph_def
      truthy_str_def truthy_list_def truthy_tl_def dict_get_def contact_entries_def
      empty_personal_def font_bound_set_run_font)

text \<open>
  C10. A top-level field that holds an empty value is treated as an absent one: the
  document is the one built without the field, and the field's stanza appends nothing,
  no section header either. This is so for the empty string as summary or skills and for
  the empty list as experience, education, skills or additional sections.
\<close>

theorem empty_value_is_absent:
  "build_document (d\<lparr>summary := Some []\<rparr>) = build_document (d\<lparr>summary := None\<rparr>) \<and>
   emitted (summary_section (d\<lparr>summary := Some []\<rparr>)) = [] \<and>
   build_document (d\<lparr>skills := Some (Str [])\<rparr>) = build_document (d\<lparr>skills := None\<rparr>) \<and>
   emitted (skills_section (d\<lparr>skills := Some (Str [])\<rparr>)) = [] \<and>
   build_document (d\<lparr>skills := Some (Lst [])\<rparr>) = build_document (d\<lparr>skills := None\<rparr>) \<and>
   emitted (skills_section (d\<lparr>skills := Some (Lst [])\<rparr>)) = [] \<and>
   build_document (d\<lparr>experience := Some []\<rparr>) = build_document (d\<lparr>experience := None\<rparr>) \<and>
   emitted (experience_section (d\<lparr>experience := Some []\<rparr>)) = [] \<and>
   build_document (d\<lparr>education := Some []\<rparr>) = build_document (d\<lparr>education := None\<rparr>) \<and>
   emitted (education_section (d\<lparr>education := Some []\<rparr>)) = [] \<and>
   build_document (d\<lparr>additional_sections := Some []\<rparr>) =
     build_document (d\<lparr>additional_sections := None\<rparr>) \<and>
   emitted (additional_sections_block (d\<lparr>additional_sections := Some []\<rparr>)) = []"
  by (simp add: build_document_def name_heading_def contact_line_def summary_section_def
      experience_section_def education_section_def skills_section_def
      additional_sections_block_def truthy_str_def truthy_list_def truthy_tl_def
      emitted_def Let_def body_Document)

theorem empty_value_is_absent_sample:
  "build_document (sample_full\<lparr>summary := Some []\<rparr>) =
     build_document (sample_full\<lparr>summary := None\<rparr>) \<and>
   outline (body (build_document (sample_full\<lparr>summary := Some []\<rparr>))) =
     [(K_heading, ''Ann Lee''),
      (K_contact, label_email @ ''ann@example.org | '' @ label_location @ ''Riga | '' @
                  label_github @ ''annlee''),
      (K_section_header, header_experience),
      (K_section_header, header_education), (K_section_header, header_skills),
      (K_section_header, ''Languages''), (K_section_header, default_title)]"
  using empty_value_is_absent [of sample_full]
  by (simp add: outline_build_document outl Let_def sample_full_def truthy_str_def
      truthy_list_def truthy_tl_def dict_get_def contact_entries_def)

end
